theory Spec2Isabelle
  imports Complex_Main "HOL-Library.AList" "HOL-Library.Multiset" "HOL-Library.Word"
begin

section \<open>Values\<close>

text \<open>
  Request bodies are parsed JSON. A key that is absent from an object reads as
  \<open>undefined\<close>; this is the \<open>None\<close> of \<open>map_of\<close>, so \<open>undefined\<close> is not a
  JSON value of its own. A number of a body is a signed 54-bit word, read with
  \<open>sint\<close>: the integers from \<open>- 2 ^ 53\<close> to \<open>2 ^ 53 - 1\<close>. Each of them is a
  double, and \<open>ToString\<close> prints each with all its digits. The other numbers that a
  JSON text can spell (with a fractional part, or of larger magnitude) are outside the
  model. Strings are lists of 8-bit code units.
\<close>

datatype json =
    JNull
  | JBool bool
  | JNum "54 word"
  | JStr string
  | JArr "json list"
  | JObj "(string \<times> json) list"

type_synonym object = "(string \<times> json) list"

text \<open>JavaScript truthiness of a property read (\<open>None\<close> is \<open>undefined\<close>).\<close>

fun truthy :: "json option \<Rightarrow> bool" where
  "truthy None = False"
| "truthy (Some JNull) = False"
| "truthy (Some (JBool b)) = b"
| "truthy (Some (JNum n)) = (n \<noteq> 0)"
| "truthy (Some (JStr s)) = (s \<noteq> [])"
| "truthy (Some (JArr xs)) = True"
| "truthy (Some (JObj kvs)) = True"

text \<open>\<open>a || b\<close> on a property read \<open>a\<close>.\<close>

definition or_else :: "json option \<Rightarrow> json \<Rightarrow> json" where
  "or_else a b = (if truthy a then the a else b)"

subsection \<open>ToString\<close>

definition digit_char :: "nat \<Rightarrow> char" where
  "digit_char d = ''0123456789'' ! d"

fun digits_of_nat :: "nat \<Rightarrow> string" where
  "digits_of_nat n =
     (if n < 10 then [digit_char n] else digits_of_nat (n div 10) @ [digit_char (n mod 10)])"

definition show_int :: "int \<Rightarrow> string" where
  "show_int n = (if n < 0 then CHR ''-'' # digits_of_nat (nat (- n)) else digits_of_nat (nat n))"

fun join_comma :: "string list \<Rightarrow> string" where
  "join_comma [] = []"
| "join_comma [s] = s"
| "join_comma (s # t # ss) = s @ CHR '','' # join_comma (t # ss)"

text \<open>
  \<open>ToString\<close> of ECMAScript on the values of a parsed body, and on \<open>undefined\<close>.
  An array joins its elements with commas, \<open>null\<close> elements giving the empty string.
\<close>

fun ToString :: "json \<Rightarrow> string" where
  "ToString JNull = ''null''"
| "ToString (JBool b) = (if b then ''true'' else ''false'')"
| "ToString (JNum n) = show_int (sint n)"
| "ToString (JStr s) = s"
| "ToString (JArr xs) = join_comma (map (\<lambda>x. if x = JNull then [] else ToString x) xs)"
| "ToString (JObj kvs) = ''[object Object]''"

definition ToString_opt :: "json option \<Rightarrow> string" where
  "ToString_opt v = (case v of None \<Rightarrow> ''undefined'' | Some x \<Rightarrow> ToString x)"

section \<open>Numbers\<close>

text \<open>
  A number of the program is an IEEE 754 double. The numbers the handlers compute with
  are \<open>NaN\<close>, an infinity (\<open>Infinite True\<close> is the positive one) or a double whose
  value is an integer, \<open>Finite n\<close>; the one quotient they form is rounded up to an
  integer at once. The two zeros are not told apart.
\<close>

datatype jsnum =
    NotANumber
  | Finite int
  | Infinite bool

fun bit_length :: "nat \<Rightarrow> nat" where
  "bit_length n = (if n = 0 then 0 else Suc (bit_length (n div 2)))"

definition pow2 :: "int \<Rightarrow> real" where
  "pow2 i = (if 0 \<le> i then 2 ^ nat i else 1 / 2 ^ nat (- i))"

text \<open>The integer nearest to \<open>x\<close>, the even one of two that are equally near.\<close>

definition round_half_even :: "real \<Rightarrow> int" where
  "round_half_even x =
     (if x - of_int \<lfloor>x\<rfloor> < 1 / 2 then \<lfloor>x\<rfloor>
      else if 1 / 2 < x - of_int \<lfloor>x\<rfloor> then \<lfloor>x\<rfloor> + 1
      else if even \<lfloor>x\<rfloor> then \<lfloor>x\<rfloor> else \<lfloor>x\<rfloor> + 1)"

text \<open>
  The exponent \<open>e\<close> with \<open>2 ^ e \<le> n / d < 2 ^ (e + 1)\<close>, for positive \<open>n\<close> and \<open>d\<close>.
\<close>

definition binary_exponent :: "nat \<Rightarrow> nat \<Rightarrow> int" where
  "binary_exponent n d =
     (let k = int (bit_length n) - int (bit_length d)
      in if pow2 k * real d \<le> real n then k else k - 1)"

text \<open>
  Rounding to nearest, ties to even, of the positive fraction \<open>n / d\<close>: the result is a
  multiple of the unit in the last of 53 binary places, which is \<open>2 ^ (e - 52)\<close> and
  no less than \<open>2 ^ - 1074\<close>. A result of \<open>2 ^ 1024\<close> or more stands for overflow.
\<close>

definition round_fraction :: "nat \<Rightarrow> nat \<Rightarrow> real" where
  "round_fraction n d =
     (if n = 0 then 0
      else let ulp = pow2 (max (binary_exponent n d - 52) (- 1074))
           in real_of_int (round_half_even (real n / real d / ulp)) * ulp)"

text \<open>
  The double nearest to an integer. Every integer of magnitude up to \<open>2 ^ 53\<close> is a
  double; beyond, the double nearest to an integer is again an integer.
\<close>

definition to_double :: "int \<Rightarrow> jsnum" where
  "to_double n =
     (if \<bar>n\<bar> \<le> 2 ^ 53 then Finite n
      else if 2 ^ 1024 \<le> round_fraction (nat \<bar>n\<bar>) 1 then Infinite (0 < n)
      else Finite (sgn n * \<lfloor>round_fraction (nat \<bar>n\<bar>) 1\<rfloor>))"

definition isNaN :: "jsnum \<Rightarrow> bool" where
  "isNaN x = (x = NotANumber)"

text \<open>\<open>x < k\<close>, \<open>x - k\<close> and \<open>x * y\<close> of the program, and \<open>Math.ceil(x / y)\<close>.\<close>

fun js_less :: "jsnum \<Rightarrow> int \<Rightarrow> bool" where
  "js_less NotANumber k = False"
| "js_less (Finite n) k = (n < k)"
| "js_less (Infinite positive) k = (\<not> positive)"

fun js_minus :: "jsnum \<Rightarrow> int \<Rightarrow> jsnum" where
  "js_minus NotANumber k = NotANumber"
| "js_minus (Finite n) k = to_double (n - k)"
| "js_minus (Infinite positive) k = Infinite positive"

fun js_times :: "jsnum \<Rightarrow> jsnum \<Rightarrow> jsnum" where
  "js_times (Finite m) (Finite n) = to_double (m * n)"
| "js_times (Finite m) (Infinite positive) =
     (if m = 0 then NotANumber else Infinite (positive = (0 < m)))"
| "js_times (Infinite positive) (Finite n) =
     (if n = 0 then NotANumber else Infinite (positive = (0 < n)))"
| "js_times (Infinite p) (Infinite q) = Infinite (p = q)"
| "js_times NotANumber y = NotANumber"
| "js_times x NotANumber = NotANumber"

fun Math_ceil_divide :: "jsnum \<Rightarrow> jsnum \<Rightarrow> jsnum" where
  "Math_ceil_divide (Finite m) (Finite n) =
     (if n = 0 then (if m = 0 then NotANumber else Infinite (0 < m))
      else if (m < 0) = (n < 0) then Finite \<lceil>round_fraction (nat \<bar>m\<bar>) (nat \<bar>n\<bar>)\<rceil>
      else Finite \<lceil>- round_fraction (nat \<bar>m\<bar>) (nat \<bar>n\<bar>)\<rceil>)"
| "Math_ceil_divide (Finite m) (Infinite positive) = Finite 0"
| "Math_ceil_divide (Infinite positive) (Finite n) = Infinite (positive = (0 \<le> n))"
| "Math_ceil_divide (Infinite p) (Infinite q) = NotANumber"
| "Math_ceil_divide NotANumber y = NotANumber"
| "Math_ceil_divide x NotANumber = NotANumber"

section \<open>parseInt with radix 10\<close>

text \<open>
  \<open>parseInt(v, 10)\<close>: the argument is converted to a string, leading white space is
  dropped, one sign is read, then the longest run of decimal digits; what follows the
  digits is ignored. With no digit the result is \<open>NaN\<close>; otherwise it is the double
  nearest to the integer that the digits spell. (ECMAScript lets an engine read the digits
  after the twentieth as zeros; no statement below rests on a numeral that long.)
\<close>

text \<open>The white space and line terminators of ECMAScript that fit in one 8-bit unit.\<close>

definition is_white_space :: "char \<Rightarrow> bool" where
  "is_white_space c = (of_char c \<in> {9, 10, 11, 12, 13, 32, 160 :: nat})"

definition is_digit :: "char \<Rightarrow> bool" where
  "is_digit c = (48 \<le> (of_char c :: nat) \<and> (of_char c :: nat) \<le> 57)"

definition digit_value :: "char \<Rightarrow> nat" where
  "digit_value c = of_char c - 48"

definition nat_of_digits :: "string \<Rightarrow> nat" where
  "nat_of_digits ds = foldl (\<lambda>acc c. 10 * acc + digit_value c) 0 ds"

definition parseInt_string :: "string \<Rightarrow> jsnum" where
  "parseInt_string s =
     (let t = dropWhile is_white_space s;
          sgn_rest = (case t of
                        [] \<Rightarrow> (1 :: int, [])
                      | c # r \<Rightarrow> if c = CHR ''-'' then (- 1, r)
                                else if c = CHR ''+'' then (1, r)
                                else (1, t));
          z = takeWhile is_digit (snd sgn_rest)
      in if z = [] then NotANumber else to_double (fst sgn_rest * int (nat_of_digits z)))"

definition parseInt :: "json option \<Rightarrow> jsnum" where
  "parseInt v = parseInt_string (ToString_opt v)"

section \<open>Documents and identifiers\<close>

text \<open>
  A stored field holds a JSON value taken from a request, a \<open>Date\<close> (milliseconds
  since the epoch, \<open>None\<close> for an invalid date), an \<open>ObjectId\<close> (written as its 24
  lower-case hexadecimal digits) or one of the numbers that are no JSON value of the
  model and that \<open>parseInt\<close> can produce: \<open>NaN\<close>, an infinity, or a double
  whose value is an integer outside the range of \<open>JNum\<close>. A document lists its fields
  in order.
\<close>

datatype field_value =
    Plain json
  | Date "int option"
  | ObjectId string
  | NaN
  | Infinity bool
  | Double int

type_synonym document = "(string \<times> field_value) list"

definition is_hex_digit :: "char \<Rightarrow> bool" where
  "is_hex_digit c = (c \<in> set ''0123456789abcdefABCDEF'')"


text \<open>
  \<open>ObjectId.isValid\<close> of the driver on a string: exactly 24 hexadecimal digits.
  \<open>new ObjectId(s)\<close> reads the 12 bytes they spell, so the case of the letters does
  not matter; the bytes are kept as lower-case hexadecimal text.
\<close>

definition ObjectId_isValid :: "string \<Rightarrow> bool" where
  "ObjectId_isValid s = (length s = 24 \<and> list_all is_hex_digit s)"

definition to_lower_hex :: "char \<Rightarrow> char" where
  "to_lower_hex c =
     (if c = CHR ''A'' then CHR ''a'' else if c = CHR ''B'' then CHR ''b''
      else if c = CHR ''C'' then CHR ''c'' else if c = CHR ''D'' then CHR ''d''
      else if c = CHR ''E'' then CHR ''e'' else if c = CHR ''F'' then CHR ''f'' else c)"

definition ObjectId_new :: "string \<Rightarrow> string" where
  "ObjectId_new s = map to_lower_hex s"


definition has_id :: "string \<Rightarrow> document \<Rightarrow> bool" where
  "has_id oid d = (map_of d ''_id'' = Some (ObjectId oid))"

section \<open>The process and its store\<close>

text \<open>
  What a handler can read or change besides its request: the \<open>db\<close> variable of
  \<open>config/db.js\<close> with the documents of the \<open>events\<close> collection (\<open>None\<close> while no
  connection is set up), the outcome of the next driver call (\<open>store_fault\<close>: the
  message of the error it rejects with, when it does), the driver calls issued so far,
  the clock (\<open>clock w k\<close> is what the \<open>k\<close>-th \<open>new Date()\<close> of the process reads),
  the identifiers the driver generates, the \<open>Date\<close> constructor on a body value, the
  comparison order of the store on \<open>schedule\<close> values, \<open>process.env.NODE_ENV\<close>, and
  the lines written by \<open>console.error\<close>.
\<close>

datatype store_op =
    FindOne string
  | CountDocuments
  | FindSortSkipLimit jsnum jsnum
  | InsertOne document
  | UpdateOne string document
  | DeleteOne string

record world =
  db :: "document list option"
  store_fault :: "string option"
  oplog :: "store_op list"
  clock :: "nat \<Rightarrow> int"
  clock_reads :: nat
  oid_gen :: "nat \<Rightarrow> string"
  oids_made :: nat
  date_parse :: "json \<Rightarrow> int option"
  bson_le :: "field_value option \<Rightarrow> field_value option \<Rightarrow> bool"
  node_env :: "string option"
  console :: "string list"

text \<open>\<open>getDB\<close> of \<open>config/db.js\<close>; \<open>Inl\<close> carries the message of a thrown error.\<close>

definition getDB :: "world \<Rightarrow> string + document list" where
  "getDB w = (case db w of
                None \<Rightarrow> Inl ''Database not initialized. Call connectDB() first.''
              | Some c \<Rightarrow> Inr c)"

definition new_Date :: "world \<Rightarrow> field_value \<times> world" where
  "new_Date w = (Date (Some (clock w (clock_reads w))), w\<lparr>clock_reads := Suc (clock_reads w)\<rparr>)"

definition issue :: "store_op \<Rightarrow> world \<Rightarrow> world" where
  "issue op w = w\<lparr>oplog := oplog w @ [op]\<rparr>"

subsection \<open>Driver calls on the collection\<close>

definition findOne :: "document list \<Rightarrow> string \<Rightarrow> world \<Rightarrow> (string + document option) \<times> world" where
  "findOne c oid w =
     (case store_fault w of
        Some m \<Rightarrow> (Inl m, issue (FindOne oid) w)
      | None \<Rightarrow> (Inr (find (has_id oid) c), issue (FindOne oid) w))"

definition countDocuments :: "document list \<Rightarrow> world \<Rightarrow> (string + jsnum) \<times> world" where
  "countDocuments c w =
     (case store_fault w of
        Some m \<Rightarrow> (Inl m, issue CountDocuments w)
      | None \<Rightarrow> (Inr (to_double (int (length c))), issue CountDocuments w))"

text \<open>
  \<open>find({}).sort({schedule: -1})\<close>: insertion into a list that is descending in the
  store's order on the \<open>schedule\<close> field; documents with equal keys keep their order.
\<close>

fun insert_desc ::
  "(field_value option \<Rightarrow> field_value option \<Rightarrow> bool) \<Rightarrow> document \<Rightarrow> document list \<Rightarrow> document list" where
  "insert_desc le d [] = [d]"
| "insert_desc le d (e # es) =
     (if le (map_of e ''schedule'') (map_of d ''schedule'') then d # e # es
      else e # insert_desc le d es)"

definition sort_desc ::
  "(field_value option \<Rightarrow> field_value option \<Rightarrow> bool) \<Rightarrow> document list \<Rightarrow> document list" where
  "sort_desc le ds = foldr (insert_desc le) ds []"

text \<open>
  \<open>.skip(s).limit(l).toArray()\<close> on that list. A skip or a limit that is not a finite
  number is taken to be refused by the store.
\<close>

definition find_sort_skip_limit ::
  "document list \<Rightarrow> jsnum \<Rightarrow> jsnum \<Rightarrow> world \<Rightarrow> (string + document list) \<times> world" where
  "find_sort_skip_limit c skp lmt w =
     (case store_fault w of
        Some m \<Rightarrow> (Inl m, issue (FindSortSkipLimit skp lmt) w)
      | None \<Rightarrow>
          (case (skp, lmt) of
             (Finite s, Finite l) \<Rightarrow>
               (Inr (take (nat l) (drop (nat s) (sort_desc (bson_le w) c))),
                issue (FindSortSkipLimit skp lmt) w)
           | _ \<Rightarrow>
               (Inl ''skip and limit must be finite numbers'',
                issue (FindSortSkipLimit skp lmt) w)))"

text \<open>
  \<open>insertOne\<close>: the driver gives the document a new \<open>_id\<close>; the store refuses a second
  document with an \<open>_id\<close> it already holds.
\<close>

definition insertOne :: "document list \<Rightarrow> document \<Rightarrow> world \<Rightarrow> (string + string) \<times> world" where
  "insertOne c doc w =
     (let oid = oid_gen w (oids_made w);
          stored = (''_id'', ObjectId oid) # doc;
          w1 = issue (InsertOne stored) (w\<lparr>oids_made := Suc (oids_made w)\<rparr>)
      in case store_fault w of
           Some m \<Rightarrow> (Inl m, w1)
         | None \<Rightarrow>
             if list_ex (has_id oid) c then (Inl ''E11000 duplicate key error'', w1)
             else (Inr oid, w1\<lparr>db := Some (c @ [stored])\<rparr>))"

text \<open>
  \<open>$set\<close>: each field of the update set replaces the field of that name or is added.
  Where a list names a key twice its first entry is the one that \<open>map_of\<close> reads, so
  the entries are written from the last to the first. The place at which the store puts a
  field that is new to the document is its own business; the statements below read
  documents through \<open>map_of\<close>.
\<close>

definition set_fields :: "document \<Rightarrow> document \<Rightarrow> document" where
  "set_fields upd d = foldr (\<lambda>kv. AList.update (fst kv) (snd kv)) upd d"

fun update_first :: "string \<Rightarrow> document \<Rightarrow> document list \<Rightarrow> (nat \<times> nat) \<times> document list" where
  "update_first oid upd [] = ((0, 0), [])"
| "update_first oid upd (d # ds) =
     (if has_id oid d
      then ((1, if set_fields upd d = d then 0 else 1), set_fields upd d # ds)
      else (case update_first oid upd ds of (r, ds') \<Rightarrow> (r, d # ds')))"

text \<open>\<open>updateOne\<close> answers with \<open>(matchedCount, modifiedCount)\<close>.\<close>

definition updateOne ::
  "document list \<Rightarrow> string \<Rightarrow> document \<Rightarrow> world \<Rightarrow> (string + nat \<times> nat) \<times> world" where
  "updateOne c oid upd w =
     (case store_fault w of
        Some m \<Rightarrow> (Inl m, issue (UpdateOne oid upd) w)
      | None \<Rightarrow>
          (case update_first oid upd c of
             (r, c') \<Rightarrow> (Inr r, (issue (UpdateOne oid upd) w)\<lparr>db := Some c'\<rparr>)))"

fun delete_first :: "string \<Rightarrow> document list \<Rightarrow> nat \<times> document list" where
  "delete_first oid [] = (0, [])"
| "delete_first oid (d # ds) =
     (if has_id oid d then (1, ds)
      else (case delete_first oid ds of (n, ds') \<Rightarrow> (n, d # ds')))"

text \<open>\<open>deleteOne\<close> answers with \<open>deletedCount\<close>.\<close>

definition deleteOne :: "document list \<Rightarrow> string \<Rightarrow> world \<Rightarrow> (string + nat) \<times> world" where
  "deleteOne c oid w =
     (case store_fault w of
        Some m \<Rightarrow> (Inl m, issue (DeleteOne oid) w)
      | None \<Rightarrow>
          (case delete_first oid c of
             (n, c') \<Rightarrow> (Inr n, (issue (DeleteOne oid) w)\<lparr>db := Some c'\<rparr>)))"

section \<open>Responses\<close>

datatype payload =
    NoData
  | Event document
  | Events "document list"
  | InsertedId string
  | ModifiedCount nat

record page_info =
  currentPage :: jsnum
  limit :: jsnum
  totalEvents :: jsnum
  totalPages :: jsnum

text \<open>
  \<open>res.status(..).json(..)\<close>: the status code and the members of the envelope; a member
  the handler does not write, or writes as \<open>undefined\<close>, is \<open>None\<close> / \<open>NoData\<close>.
\<close>

record response =
  status :: nat
  success :: bool
  message :: "string option"
  data :: payload
  pagination :: "page_info option"
  error :: "string option"

definition fail :: "nat \<Rightarrow> string \<Rightarrow> response" where
  "fail code msg =
     \<lparr>status = code, success = False, message = Some msg, data = NoData,
      pagination = None, error = None\<rparr>"

definition ok :: "string option \<Rightarrow> payload \<Rightarrow> response" where
  "ok msg d =
     \<lparr>status = 200, success = True, message = msg, data = d,
      pagination = None, error = None\<rparr>"

text \<open>The \<open>catch\<close> block shared by the five handlers, up to the label it logs.\<close>

definition internal_error :: "string \<Rightarrow> string \<Rightarrow> world \<Rightarrow> response \<times> world" where
  "internal_error label msg w =
     (\<lparr>status = 500, success = False, message = Some ''Internal server error'', data = NoData,
       pagination = None, error = Some msg\<rparr>,
      w\<lparr>console := console w @ [label @ '' '' @ msg]\<rparr>)"

section \<open>The handlers of the event controller\<close>

text \<open>
  A handler takes what it reads from the request and the state of the process, and
  returns the response it sends and the state it leaves. An identifier or a query value
  is a string, or absent (\<open>None\<close>). \<open>req.body\<close> is the object that the body
  parser produced, in the order of its keys, or \<open>undefined\<close> (\<open>None\<close>) when no
  body was parsed; reading a property of \<open>undefined\<close> throws a \<open>TypeError\<close>
  with the message of the engine, which the \<open>catch\<close> block of the handler receives.
  A body that is a JSON array is not modelled.
\<close>

definition getEventById :: "string option \<Rightarrow> world \<Rightarrow> response \<times> world" where
  "getEventById ident w =
     (case ident of
        None \<Rightarrow> (fail 400 ''Event ID is required'', w)
      | Some s \<Rightarrow>
          if s = [] then (fail 400 ''Event ID is required'', w)
          else if \<not> ObjectId_isValid s then (fail 400 ''Invalid Event ID format'', w)
          else (case getDB w of
                  Inl e \<Rightarrow> internal_error ''Error fetching event by ID:'' e w
                | Inr c \<Rightarrow>
                    (case findOne c (ObjectId_new s) w of
                       (Inl e, w1) \<Rightarrow> internal_error ''Error fetching event by ID:'' e w1
                     | (Inr None, w1) \<Rightarrow> (fail 404 ''Event not found'', w1)
                     | (Inr (Some event), w1) \<Rightarrow> (ok None (Event event), w1))))"

text \<open>A query value is a string; an absent one takes the default of the destructuring.\<close>

definition query_or :: "string option \<Rightarrow> 54 word \<Rightarrow> json option" where
  "query_or q dflt = (case q of None \<Rightarrow> Some (JNum dflt) | Some s \<Rightarrow> Some (JStr s))"

definition getLatestEvents :: "string option \<Rightarrow> string option \<Rightarrow> world \<Rightarrow> response \<times> world" where
  "getLatestEvents limit_q page_q w =
     (let limitNum = parseInt (query_or limit_q 5);
          pageNum = parseInt (query_or page_q 1)
      in if isNaN limitNum \<or> js_less limitNum 1
         then (fail 400 ''Limit must be a positive integer'', w)
         else if isNaN pageNum \<or> js_less pageNum 1
         then (fail 400 ''Page must be a positive integer'', w)
         else (case getDB w of
                 Inl e \<Rightarrow> internal_error ''Error fetching latest events:'' e w
               | Inr c \<Rightarrow>
                   (case countDocuments c w of
                      (Inl e, w1) \<Rightarrow> internal_error ''Error fetching latest events:'' e w1
                    | (Inr totalCount, w1) \<Rightarrow>
                        (case find_sort_skip_limit c
                                (js_times (js_minus pageNum 1) limitNum) limitNum w1 of
                           (Inl e, w2) \<Rightarrow>
                             internal_error ''Error fetching latest events:'' e w2
                         | (Inr events, w2) \<Rightarrow>
                             (\<lparr>status = 200, success = True, message = None,
                               data = Events events,
                               pagination = Some
                                 \<lparr>currentPage = pageNum, limit = limitNum,
                                  totalEvents = totalCount,
                                  totalPages = Math_ceil_divide totalCount limitNum\<rparr>,
                               error = None\<rparr>, w2)))))"

text \<open>
  \<open>new Date(v)\<close> on a body value, and the number \<open>parseInt\<close> returns as a
  stored field.
\<close>

definition to_Date :: "world \<Rightarrow> json option \<Rightarrow> field_value" where
  "to_Date w v = (case v of None \<Rightarrow> Date None | Some x \<Rightarrow> Date (date_parse w x))"

definition number :: "jsnum \<Rightarrow> field_value" where
  "number r =
     (case r of
        NotANumber \<Rightarrow> NaN
      | Infinite positive \<Rightarrow> Infinity positive
      | Finite n \<Rightarrow>
          if - (2 ^ 53) \<le> n \<and> n < 2 ^ 53 then Plain (JNum (word_of_int n)) else Double n)"

text \<open>
  The object literal \<open>eventDocument\<close>, given the three dates its members evaluate to.
\<close>

definition eventDocument ::
  "object \<Rightarrow> json \<Rightarrow> field_value \<Rightarrow> field_value \<Rightarrow> field_value \<Rightarrow> document" where
  "eventDocument body name schedule createdAt updatedAt =
     [(''type'', Plain (JStr ''event'')),
      (''uid'', Plain (or_else (map_of body ''uid'') JNull)),
      (''name'', Plain name),
      (''tagline'', Plain (or_else (map_of body ''tagline'') (JStr []))),
      (''schedule'', schedule),
      (''description'', Plain (or_else (map_of body ''description'') (JStr []))),
      (''files'', Plain (or_else (map_of body ''files'') (JObj [(''image'', JNull)]))),
      (''moderator'', Plain (or_else (map_of body ''moderator'') JNull)),
      (''category'', Plain (or_else (map_of body ''category'') (JStr []))),
      (''sub_category'', Plain (or_else (map_of body ''sub_category'') (JStr []))),
      (''rigor_rank'',
         if truthy (map_of body ''rigor_rank'') then number (parseInt (map_of body ''rigor_rank''))
         else Plain (JNum 0)),
      (''attendees'',
         case map_of body ''attendees'' of
           Some (JArr xs) \<Rightarrow> Plain (JArr xs)
         | _ \<Rightarrow> Plain (JArr [])),
      (''createdAt'', createdAt),
      (''updatedAt'', updatedAt)]"

definition createEvent :: "object option \<Rightarrow> world \<Rightarrow> response \<times> world" where
  "createEvent req_body w =
     (case req_body of
        None \<Rightarrow>
          internal_error ''Error creating event:''
            ''Cannot destructure property 'uid' of 'req.body' as it is undefined.'' w
      | Some body \<Rightarrow>
     (case map_of body ''name'' of
        None \<Rightarrow> (fail 400 ''Event name is required'', w)
      | Some name \<Rightarrow>
          if \<not> truthy (Some name) then (fail 400 ''Event name is required'', w)
          else
            (case (if truthy (map_of body ''schedule'')
                   then (to_Date w (map_of body ''schedule''), w) else new_Date w) of
               (schedule, w1) \<Rightarrow>
            (case new_Date w1 of (createdAt, w2) \<Rightarrow>
            (case new_Date w2 of (updatedAt, w3) \<Rightarrow>
            (case getDB w3 of
               Inl e \<Rightarrow> internal_error ''Error creating event:'' e w3
             | Inr c \<Rightarrow>
                 (case insertOne c (eventDocument body name schedule createdAt updatedAt) w3 of
                    (Inl e, w4) \<Rightarrow> internal_error ''Error creating event:'' e w4
                  | (Inr oid, w4) \<Rightarrow>
                      (\<lparr>status = 201, success = True,
                        message = Some ''Event created successfully'',
                        data = InsertedId oid, pagination = None, error = None\<rparr>, w4))))))))"

text \<open>
  The update set that \<open>updateEvent\<close> builds from the body, given the date read for
  \<open>updatedAt\<close>: the two reserved keys are deleted, \<open>schedule\<close> and \<open>rigor_rank\<close>
  are converted in place, \<open>updatedAt\<close> is written.
\<close>

definition updateFields :: "world \<Rightarrow> object \<Rightarrow> field_value \<Rightarrow> document" where
  "updateFields w body now =
     (let b = AList.delete ''type'' (AList.delete ''_id'' body);
          u0 = map (\<lambda>kv. (fst kv, Plain (snd kv))) b;
          u1 = (if truthy (map_of b ''schedule'')
                then AList.update ''schedule'' (to_Date w (map_of b ''schedule'')) u0 else u0);
          u2 = (if map_of b ''rigor_rank'' \<noteq> None
                then AList.update ''rigor_rank'' (number (parseInt (map_of b ''rigor_rank''))) u1
                else u1)
      in AList.update ''updatedAt'' now u2)"

definition updateEvent :: "string option \<Rightarrow> object option \<Rightarrow> world \<Rightarrow> response \<times> world" where
  "updateEvent ident req_body w =
     (case ident of
        None \<Rightarrow> (fail 400 ''Event ID is required'', w)
      | Some s \<Rightarrow>
          if s = [] then (fail 400 ''Event ID is required'', w)
          else if \<not> ObjectId_isValid s then (fail 400 ''Invalid Event ID format'', w)
          else
            (case req_body of
               None \<Rightarrow>
                 internal_error ''Error updating event:''
                   ''Cannot convert undefined or null to object'' w
             | Some body \<Rightarrow>
          if body = [] then (fail 400 ''No update fields provided'', w)
          else
            (case new_Date w of (now, w1) \<Rightarrow>
            (case getDB w1 of
               Inl e \<Rightarrow> internal_error ''Error updating event:'' e w1
             | Inr c \<Rightarrow>
                 (case updateOne c (ObjectId_new s) (updateFields w body now) w1 of
                    (Inl e, w2) \<Rightarrow> internal_error ''Error updating event:'' e w2
                  | (Inr (matchedCount, modifiedCount), w2) \<Rightarrow>
                      if matchedCount = 0 then (fail 404 ''Event not found'', w2)
                      else (ok (Some ''Event updated successfully'') (ModifiedCount modifiedCount),
                            w2))))))"

definition deleteEvent :: "string option \<Rightarrow> world \<Rightarrow> response \<times> world" where
  "deleteEvent ident w =
     (case ident of
        None \<Rightarrow> (fail 400 ''Event ID is required'', w)
      | Some s \<Rightarrow>
          if s = [] then (fail 400 ''Event ID is required'', w)
          else if \<not> ObjectId_isValid s then (fail 400 ''Invalid Event ID format'', w)
          else (case getDB w of
                  Inl e \<Rightarrow> internal_error ''Error deleting event:'' e w
                | Inr c \<Rightarrow>
                    (case deleteOne c (ObjectId_new s) w of
                       (Inl e, w1) \<Rightarrow> internal_error ''Error deleting event:'' e w1
                     | (Inr deletedCount, w1) \<Rightarrow>
                         if deletedCount = 0 then (fail 404 ''Event not found'', w1)
                         else (ok (Some ''Event deleted successfully'') NoData, w1))))"

section \<open>The traps of the server\<close>

text \<open>The global error handler, for an error with message \<open>msg\<close> that reaches it.\<close>

definition global_error_handler :: "string \<Rightarrow> world \<Rightarrow> response \<times> world" where
  "global_error_handler msg w =
     (\<lparr>status = 500, success = False, message = Some ''Internal server error'', data = NoData,
       pagination = None,
       error = (if node_env w = Some ''development'' then Some msg else None)\<rparr>,
      w\<lparr>console := console w @ [''Unhandled error: '' @ msg]\<rparr>)"

section \<open>Example states\<close>

text \<open>
  A connected process in production mode with an empty collection, a clock that advances
  by one millisecond at every reading, and a store whose order puts what is no date
  first, then the invalid date, then the dates by time.
\<close>

definition date_rank :: "field_value option \<Rightarrow> int \<times> int" where
  "date_rank a =
     (case a of
        Some (Date (Some x)) \<Rightarrow> (2, x)
      | Some (Date None) \<Rightarrow> (1, 0)
      | _ \<Rightarrow> (0, 0))"

definition date_le :: "field_value option \<Rightarrow> field_value option \<Rightarrow> bool" where
  "date_le a b =
     (fst (date_rank a) < fst (date_rank b)
      \<or> (fst (date_rank a) = fst (date_rank b) \<and> snd (date_rank a) \<le> snd (date_rank b)))"

definition example_world :: world where
  "example_world =
     \<lparr>db = Some [], store_fault = None, oplog = [],
      clock = (\<lambda>k. 1700000000000 + int k), clock_reads = 0,
      oid_gen = (\<lambda>k. ''64f5a6c1e98765432100000'' @ [digit_char (k mod 10)]), oids_made = 0,
      date_parse = (\<lambda>v. None), bson_le = date_le,
      node_env = Some ''production'', console = []\<rparr>"

text \<open>The same process when the next driver call is rejected.\<close>

definition failing_world :: world where
  "failing_world = example_world\<lparr>store_fault := Some ''connection closed''\<rparr>"

text \<open>The same process with three stored events, scheduled at times 10, 30 and 20.\<close>

definition stocked_world :: world where
  "stocked_world =
     example_world\<lparr>db := Some
        [[(''_id'', ObjectId ''64f5a6c1e98765432100000a''), (''type'', Plain (JStr ''event'')),
          (''schedule'', Date (Some 10))],
         [(''_id'', ObjectId ''64f5a6c1e98765432100000b''), (''type'', Plain (JStr ''event'')),
          (''schedule'', Date (Some 30))],
         [(''_id'', ObjectId ''64f5a6c1e98765432100000c''), (''type'', Plain (JStr ''event'')),
          (''schedule'', Date (Some 20))]]\<rparr>"

text \<open>The example process with a clock that stands still.\<close>

definition frozen_clock_world :: world where
  "frozen_clock_world = example_world\<lparr>clock := (\<lambda>k. 1700000000000)\<rparr>"

text \<open>The order in which a list of documents is descending in \<open>schedule\<close>.\<close>

definition schedule_descending ::
  "(field_value option \<Rightarrow> field_value option \<Rightarrow> bool) \<Rightarrow> document list \<Rightarrow> bool" where
  "schedule_descending le ds =
     sorted_wrt (\<lambda>x y. le (map_of y ''schedule'') (map_of x ''schedule'')) ds"

section \<open>What the specification calls a positive integer\<close>

text \<open>
  A query value denotes a positive integer when it is a decimal numeral, digits only,
  whose value is at least one. This is the reading of the specification; the handler
  itself goes through \<open>parseInt\<close>.
\<close>

definition spec_positive_integer :: "string \<Rightarrow> bool" where
  "spec_positive_integer s = (s \<noteq> [] \<and> list_all is_digit s \<and> 0 < nat_of_digits s)"

section \<open>Rounding to doubles\<close>

lemma to_double_exact: "\<bar>n\<bar> \<le> 2 ^ 53 \<Longrightarrow> to_double n = Finite n"
  by (simp add: to_double_def)

lemma bit_length_bounds:
  "0 < n \<Longrightarrow> 2 ^ (bit_length n - 1) \<le> n \<and> n < 2 ^ bit_length n"
proof (induction n rule: bit_length.induct)
  case (1 n)
  show ?case
  proof (cases "n div 2 = 0")
    case True
    with 1 have "n = 1" by auto
    then show ?thesis by simp
  next
    case False
    with 1 have IH: "2 ^ (bit_length (n div 2) - 1) \<le> n div 2"
      "n div 2 < 2 ^ bit_length (n div 2)" by auto
    from False have b: "0 < bit_length (n div 2)" by simp
    have eq: "bit_length n = Suc (bit_length (n div 2))" using 1(2) by simp
    from b have "(2::nat) ^ bit_length (n div 2) = 2 * 2 ^ (bit_length (n div 2) - 1)"
      by (cases "bit_length (n div 2)") simp_all
    with IH(1) have lo: "2 ^ bit_length (n div 2) \<le> n" by linarith
    from IH(2) have hi: "n < 2 * 2 ^ bit_length (n div 2)" by linarith
    show ?thesis unfolding eq using lo hi by simp
  qed
qed

lemma pow2_powr: "pow2 i = 2 powr real_of_int i"
proof (cases "0 \<le> i")
  case True
  then have "2 powr real_of_int i = 2 powr real (nat i)" by simp
  also have "\<dots> = 2 ^ nat i" by (rule powr_realpow) simp
  finally show ?thesis using True by (simp add: pow2_def)
next
  case False
  then have "2 powr real_of_int i = 2 powr (- real (nat (- i)))" by simp
  also have "\<dots> = 1 / 2 powr real (nat (- i))" by (rule powr_minus_divide)
  also have "2 powr real (nat (- i)) = 2 ^ nat (- i)" by (rule powr_realpow) simp
  finally show ?thesis using False by (simp add: pow2_def)
qed

lemma pow2_pos: "0 < pow2 i"
  by (simp add: pow2_powr)

lemma pow2_add: "pow2 (i + j) = pow2 i * pow2 j"
  by (simp add: pow2_powr powr_add)

lemma pow2_nat: "pow2 (int k) = 2 ^ k"
  by (simp add: pow2_def)

lemma pow2_less_iff: "pow2 i < pow2 j \<longleftrightarrow> i < j"
  by (simp add: pow2_powr)

lemma binary_exponent_lower:
  assumes "0 < n" and "0 < d"
  shows "pow2 (binary_exponent n d) * real d \<le> real n"
proof (cases "pow2 (int (bit_length n) - int (bit_length d)) * real d \<le> real n")
  case True
  then show ?thesis by (simp add: binary_exponent_def Let_def)
next
  case False
  then have e: "binary_exponent n d = int (bit_length n) - int (bit_length d) - 1"
    by (simp add: binary_exponent_def Let_def)
  from assms(1) have bn: "0 < bit_length n" by simp
  have "real d < 2 ^ bit_length d"
    using bit_length_bounds [OF assms(2)] by (metis of_nat_less_iff of_nat_numeral of_nat_power)
  then have "pow2 (binary_exponent n d) * real d
               < pow2 (binary_exponent n d) * pow2 (int (bit_length d))"
    using pow2_pos by (simp add: pow2_nat)
  also have "\<dots> = pow2 (int (bit_length n) - 1)" by (simp add: e pow2_add [symmetric])
  also have "\<dots> = 2 ^ (bit_length n - 1)"
    using bn pow2_nat [of "bit_length n - 1"] by (simp add: of_nat_diff)
  also have "\<dots> \<le> real n"
    using bit_length_bounds [OF assms(1)] by (metis of_nat_le_iff of_nat_numeral of_nat_power)
  finally show ?thesis by simp
qed

lemma binary_exponent_ge:
  "int (bit_length n) - int (bit_length d) - 1 \<le> binary_exponent n d"
  by (simp add: binary_exponent_def Let_def)

lemma round_half_even_error: "\<bar>real_of_int (round_half_even x) - x\<bar> \<le> 1 / 2"
  unfolding round_half_even_def by (auto simp: abs_le_iff)

lemma round_half_even_of_int: "round_half_even (of_int j) = j"
  by (simp add: round_half_even_def)


lemma ceiling_of_near_fraction:
  fixes f :: real
  assumes "0 < L" and "\<not> L dvd N" and "\<bar>f - real_of_int N / real_of_int L\<bar> < 1 / real_of_int L"
  shows "\<lceil>f\<rceil> = \<lceil>real_of_int N / real_of_int L\<rceil>"
proof -
  define k where "k = N div L"
  define r where "r = N mod L"
  have N: "N = k * L + r" by (simp add: k_def r_def)
  have "r \<noteq> 0" using assms(2) by (simp add: r_def mod_eq_0_iff_dvd)
  moreover have "0 \<le> r" "r < L" using assms(1) by (simp_all add: r_def)
  ultimately have r: "0 < r" "r < L" by simp_all
  have Lr: "0 < real_of_int L" using assms(1) by simp
  have q: "real_of_int N / real_of_int L = real_of_int k + real_of_int r / real_of_int L"
    using Lr by (simp add: N field_simps)
  have lo: "1 / real_of_int L \<le> real_of_int r / real_of_int L"
    using r(1) Lr by (simp add: divide_le_cancel)
  have hi: "real_of_int r / real_of_int L \<le> 1 - 1 / real_of_int L"
  proof -
    have "real_of_int r \<le> real_of_int L - 1" using r(2) by linarith
    then have "real_of_int r / real_of_int L \<le> (real_of_int L - 1) / real_of_int L"
      using Lr by (simp add: divide_le_cancel)
    also have "\<dots> = 1 - 1 / real_of_int L" using Lr by (simp add: field_simps)
    finally show ?thesis .
  qed
  have f: "real_of_int k < f" "f < real_of_int k + 1"
    using assms(3) lo hi unfolding q by (simp_all add: abs_less_iff)
  have "\<lceil>f\<rceil> = k + 1" using f by (simp add: ceiling_unique)
  moreover have "\<lceil>real_of_int N / real_of_int L\<rceil> = k + 1"
  proof -
    have p: "0 < real_of_int r / real_of_int L" using r(1) Lr by simp
    have p1: "real_of_int r / real_of_int L \<le> 1" using r(2) Lr by simp
    have "real_of_int (k + 1) - 1 < real_of_int k + real_of_int r / real_of_int L"
      using p by simp
    moreover have "real_of_int k + real_of_int r / real_of_int L \<le> real_of_int (k + 1)"
      using p1 by simp
    ultimately show ?thesis unfolding q by (rule ceiling_unique)
  qed
  ultimately show ?thesis by simp
qed


lemma bit_length_le:
  assumes "0 < d" and "d \<le> 2 ^ k"
  shows "bit_length d \<le> Suc k"
proof (rule ccontr)
  assume "\<not> bit_length d \<le> Suc k"
  then have "Suc k \<le> bit_length d - 1" by simp
  then have "(2::nat) ^ Suc k \<le> 2 ^ (bit_length d - 1)" by (rule power_increasing) simp
  also have "\<dots> \<le> d" using bit_length_bounds [OF assms(1)] by simp
  finally have "2 * 2 ^ k \<le> d" by simp
  moreover have "(0::nat) < 2 ^ k" by simp
  ultimately show False using assms(2) by linarith
qed

lemma round_fraction_ceiling:
  assumes "n < 2 ^ 53" and "0 < d" and "d \<le> 2 ^ 53"
  shows "\<lceil>round_fraction n d\<rceil> = \<lceil>real n / real d\<rceil>"
proof (cases "n = 0")
  case True
  then show ?thesis by (simp add: round_fraction_def)
next
  case False
  then have n: "0 < n" by simp
  define e where "e = binary_exponent n d"
  define q where "q = real n / real d"
  have dpos: "0 < real d" using assms(2) by simp
  have qpos: "0 < q" using n dpos by (simp add: q_def)
  have lower: "pow2 e \<le> q"
    using binary_exponent_lower [OF n assms(2)] dpos by (simp add: e_def q_def pos_le_divide_eq)
  have "q \<le> real n" using dpos assms(2) n by (simp add: q_def field_simps)
  also have "real n < 2 ^ 53" using assms(1) by (metis of_nat_less_iff of_nat_numeral of_nat_power)
  finally have qlt: "q < 2 ^ 53" .
  have "pow2 e < pow2 53" using lower qlt by (simp add: pow2_def)
  then have e_hi: "e \<le> 52" by (simp add: pow2_less_iff)
  have "1 \<le> bit_length n" using n by simp
  moreover have "bit_length d \<le> 54" using bit_length_le [OF assms(2) assms(3)] by simp
  ultimately have e_lo: "- 54 \<le> e" using binary_exponent_ge [of n d] by (simp add: e_def)
  define ulp where "ulp = pow2 (e - 52)"
  have ulp_pos: "0 < ulp" by (simp add: ulp_def pow2_pos)
  have rf: "round_fraction n d = real_of_int (round_half_even (q / ulp)) * ulp"
    using False e_lo by (simp add: round_fraction_def Let_def e_def [symmetric] ulp_def q_def)
  have inv: "1 / ulp = 2 ^ nat (52 - e)"
  proof -
    have "pow2 (e - 52) * pow2 (52 - e) = 1"
      using pow2_add [of "e - 52" "52 - e"] by (simp add: pow2_def)
    moreover have "pow2 (52 - e) = 2 ^ nat (52 - e)" using e_hi by (simp add: pow2_def)
    ultimately show ?thesis using ulp_pos by (simp add: ulp_def field_simps)
  qed
  show ?thesis
  proof (cases "int d dvd int n")
    case True
    then obtain k where k: "int n = int d * k" by (auto simp: dvd_def)
    then have "real_of_int (int n) = real_of_int (int d * k)" by simp
    then have "real n = real d * real_of_int k" by simp
    then have qk: "q = real_of_int k" using dpos by (simp add: q_def)
    have "q / ulp = q * (1 / ulp)" by simp
    then have "q / ulp = real_of_int (k * 2 ^ nat (52 - e))"
      unfolding inv by (simp add: qk)
    then have "round_half_even (q / ulp) = k * 2 ^ nat (52 - e)"
      by (simp only: round_half_even_of_int)
    then have "round_fraction n d = q"
      using inv ulp_pos by (simp add: rf qk field_simps)
    then show ?thesis by (simp add: q_def)
  next
    case False
    have "\<bar>real_of_int (round_half_even (q / ulp)) - q / ulp\<bar> \<le> 1 / 2"
      by (rule round_half_even_error)
    then have "\<bar>real_of_int (round_half_even (q / ulp)) - q / ulp\<bar> * ulp \<le> 1 / 2 * ulp"
      using ulp_pos by (simp add: mult_le_cancel_right)
    moreover have "\<bar>real_of_int (round_half_even (q / ulp)) - q / ulp\<bar> * ulp
                   = \<bar>round_fraction n d - q\<bar>"
    proof -
      have "(real_of_int (round_half_even (q / ulp)) - q / ulp) * ulp = round_fraction n d - q"
        using ulp_pos by (simp add: rf left_diff_distrib)
      then have "\<bar>round_fraction n d - q\<bar>
                   = \<bar>real_of_int (round_half_even (q / ulp)) - q / ulp\<bar> * \<bar>ulp\<bar>"
        by (simp only: abs_mult [symmetric])
      then show ?thesis using ulp_pos by simp
    qed
    ultimately have err: "\<bar>round_fraction n d - q\<bar> \<le> ulp / 2" by simp
    have "ulp * 2 ^ 52 = pow2 e"
      using pow2_add [of "e - 52" 52] by (simp add: ulp_def pow2_def)
    then have "ulp / 2 = pow2 e / 2 ^ 53" by (simp add: field_simps)
    also have "\<dots> \<le> q / 2 ^ 53" using lower by (simp add: divide_right_mono)
    also have "\<dots> < 1 / real d"
    proof -
      have "q / 2 ^ 53 = (real n / 2 ^ 53) / real d" by (simp add: q_def)
      also have "\<dots> < 1 / real d"
      proof (rule divide_strict_right_mono)
        have "real n < 2 ^ 53"
          using assms(1) by (metis of_nat_less_iff of_nat_numeral of_nat_power)
        then show "real n / 2 ^ 53 < 1" by simp
        show "0 < real d" by (rule dpos)
      qed
      finally show ?thesis .
    qed
    finally have "ulp / 2 < 1 / real d" .
    with err have "\<bar>round_fraction n d - real_of_int (int n) / real_of_int (int d)\<bar>
                    < 1 / real_of_int (int d)"
      by (simp add: q_def)
    from ceiling_of_near_fraction [OF _ False this] assms(2) show ?thesis by simp
  qed
qed

lemma Math_ceil_divide_exact:
  assumes "0 \<le> N" and "N < 2 ^ 53" and "1 \<le> L" and "L \<le> 2 ^ 53"
  shows "Math_ceil_divide (Finite N) (Finite L) = Finite \<lceil>real_of_int N / real_of_int L\<rceil>"
proof -
  have n: "nat \<bar>N\<bar> < 2 ^ 53" using assms(1,2) by (simp add: nat_less_iff)
  have d: "0 < nat \<bar>L\<bar>" "nat \<bar>L\<bar> \<le> 2 ^ 53" using assms(3,4) by (simp_all add: nat_le_iff)
  have r: "real (nat \<bar>N\<bar>) = real_of_int N" "real (nat \<bar>L\<bar>) = real_of_int L"
    using assms(1,3) by simp_all
  have c: "\<lceil>round_fraction (nat \<bar>N\<bar>) (nat \<bar>L\<bar>)\<rceil> = \<lceil>real_of_int N / real_of_int L\<rceil>"
    using round_fraction_ceiling [OF n d] unfolding r .
  have s: "L \<noteq> 0" "\<not> N < 0" "\<not> L < 0" using assms(1,3) by auto
  show ?thesis by (simp add: s c)
qed

lemmas num_defs = to_double_def round_fraction_def binary_exponent_def pow2_def
  round_half_even_def isNaN_def Let_def

text \<open>The first integer that is no double is read as its even neighbour.\<close>

lemma to_double_rounds: "to_double 9007199254740993 = Finite 9007199254740992"
  by (simp add: num_defs)

section \<open>Integers survive ToString and parseInt\<close>




lemma digit_not_space_or_sign:
  "is_digit c \<Longrightarrow> \<not> is_white_space c \<and> c \<noteq> CHR ''-'' \<and> c \<noteq> CHR ''+''"
  by (auto simp: is_digit_def is_white_space_def)

lemma parseInt_string_digits:
  assumes "list_all is_digit ds" and "ds \<noteq> []"
  shows "parseInt_string ds = to_double (int (nat_of_digits ds))"
    and "parseInt_string (CHR ''-'' # ds) = to_double (- int (nat_of_digits ds))"
proof -
  obtain c r where ds: "ds = c # r" using assms(2) by (cases ds) auto
  with assms(1) have c: "is_digit c" by simp
  have tw: "takeWhile is_digit ds = ds"
    using assms(1) by (simp add: takeWhile_eq_all_conv list_all_iff)
  have dw: "dropWhile is_white_space ds = ds"
    using digit_not_space_or_sign [OF c] by (simp add: ds)
  have sr: "(case ds of [] \<Rightarrow> (1 :: int, [])
             | c # r \<Rightarrow> if c = CHR ''-'' then (- 1, r)
                        else if c = CHR ''+'' then (1, r) else (1, ds)) = (1, ds)"
    using digit_not_space_or_sign [OF c] by (simp add: ds)
  show "parseInt_string ds = to_double (int (nat_of_digits ds))"
    unfolding parseInt_string_def Let_def dw sr using assms(2) by (simp add: tw)
  have m: "dropWhile is_white_space (CHR ''-'' # ds) = CHR ''-'' # ds"
    by (simp add: is_white_space_def)
  show "parseInt_string (CHR ''-'' # ds) = to_double (- int (nat_of_digits ds))"
    unfolding parseInt_string_def Let_def m using assms(2) by (simp add: tw)
qed

text \<open>A query value that is the numeral of a positive integer is read as that integer,
  rounded to a double.\<close>

lemma spec_positive_integer_parses:
  assumes "spec_positive_integer s"
  shows "parseInt (query_or (Some s) dflt) = to_double (int (nat_of_digits s))"
    and "1 \<le> int (nat_of_digits s)"
  using assms parseInt_string_digits(1) [of s]
  by (simp_all add: spec_positive_integer_def parseInt_def query_or_def ToString_opt_def)




lemmas parse_defs = parseInt_def ToString_opt_def parseInt_string_def is_white_space_def
  is_digit_def nat_of_digits_def digit_value_def show_int_def digit_char_def query_or_def
  to_double_def isNaN_def

section \<open>Create: validation of the name\<close>

text \<open>
  On a parsed body whose \<open>name\<close> is absent or the empty string, Create answers 400
  "Event name is required" and leaves everything as it was: the collection is the same,
  no driver call is issued, no document inserted.
\<close>

lemma createEvent_name_required:
  assumes "map_of body ''name'' = None \<or> map_of body ''name'' = Some (JStr [])"
  shows "createEvent (Some body) w = (fail 400 ''Event name is required'', w)"
  using assms by (auto simp: createEvent_def)

text \<open>
  C8. The claim is that every Create request whose \<open>name\<close> is absent or empty is
  answered 400 with nothing inserted. A request that reaches the handler without a parsed
  body has no \<open>name\<close>; the destructuring of \<open>req.body\<close> throws inside the \<open>try\<close>
  and the \<open>catch\<close> block answers 500 with the raw message. Nothing is inserted.
\<close>

theorem createEvent_without_body:
  "fst (createEvent None example_world) =
     \<lparr>status = 500, success = False, message = Some ''Internal server error'', data = NoData,
      pagination = None,
      error = Some ''Cannot destructure property 'uid' of 'req.body' as it is undefined.''\<rparr>
   \<and> status (fst (createEvent None example_world)) \<noteq> 400
   \<and> db (snd (createEvent None example_world)) = Some []
   \<and> oplog (snd (createEvent None example_world)) = []
   \<and> createEvent (Some []) example_world
       = (fail 400 ''Event name is required'', example_world)
   \<and> createEvent (Some [(''name'', JStr [])]) example_world
       = (fail 400 ''Event name is required'', example_world)"
  by (simp add: createEvent_def internal_error_def example_world_def)

section \<open>Lookups that match nothing\<close>




lemma isValid_nonempty: "ObjectId_isValid s \<Longrightarrow> s \<noteq> []"
  by (auto simp: ObjectId_isValid_def)

section \<open>Identifier checks of Get, Update and Delete\<close>




section \<open>List-latest: pagination\<close>

text \<open>
  The list the store pages through holds the documents of the collection, and is
  descending in \<open>schedule\<close> whenever the store's comparison is a total preorder.
\<close>

lemma insert_desc_length: "length (insert_desc le d es) = Suc (length es)"
  by (induction es) auto

lemma sort_desc_length: "length (sort_desc le ds) = length ds"
  by (induction ds) (simp_all add: sort_desc_def insert_desc_length)

lemma mset_insert_desc: "mset (insert_desc le d es) = add_mset d (mset es)"
  by (induction es) auto

lemma mset_sort_desc: "mset (sort_desc le ds) = mset ds"
  by (induction ds) (simp_all add: sort_desc_def mset_insert_desc)

lemma set_insert_desc: "set (insert_desc le d es) = insert d (set es)"
  by (induction es) auto

lemma insert_desc_sorted:
  assumes tot: "\<forall>a b. le a b \<or> le b a"
    and trans: "\<forall>a b c. le a b \<and> le b c \<longrightarrow> le a c"
    and "schedule_descending le es"
  shows "schedule_descending le (insert_desc le d es)"
  using assms(3) unfolding schedule_descending_def
proof (induction es)
  case Nil
  then show ?case by simp
next
  case (Cons e es)
  have tr: "le a c" if "le a b" and "le b c" for a b c
    using trans that by blast
  show ?case
  proof (cases "le (map_of e ''schedule'') (map_of d ''schedule'')")
    case True
    have "le (map_of y ''schedule'') (map_of d ''schedule'')" if "y \<in> set es" for y
    proof -
      from Cons.prems that have "le (map_of y ''schedule'') (map_of e ''schedule'')" by simp
      then show ?thesis using True by (rule tr)
    qed
    with True Cons.prems show ?thesis by simp
  next
    case False
    with tot have "le (map_of d ''schedule'') (map_of e ''schedule'')" by blast
    with False Cons show ?thesis by (simp add: set_insert_desc)
  qed
qed

lemma sort_desc_sorted:
  assumes tot: "\<forall>a b. le a b \<or> le b a"
    and trans: "\<forall>a b c. le a b \<and> le b c \<longrightarrow> le a c"
  shows "schedule_descending le (sort_desc le ds)"
proof (induction ds)
  case Nil
  then show ?case by (simp add: sort_desc_def schedule_descending_def)
next
  case (Cons d ds)
  have "sort_desc le (d # ds) = insert_desc le d (sort_desc le ds)"
    by (simp add: sort_desc_def)
  with insert_desc_sorted [OF tot trans Cons] show ?case by simp
qed

lemma date_le_preorder:
  "\<forall>a b. date_le a b \<or> date_le b a"
  "\<forall>a b c. date_le a b \<and> date_le b c \<longrightarrow> date_le a c"
  by (auto simp: date_le_def)

lemma total_pages_bounds:
  assumes "1 \<le> (L::int)"
  shows "int n \<le> \<lceil>real n / real_of_int L\<rceil> * L
         \<and> (\<lceil>real n / real_of_int L\<rceil> - 1) * L < int n"
proof -
  have pos: "0 < real_of_int L" using assms by simp
  have "real n \<le> real_of_int \<lceil>real n / real_of_int L\<rceil> * real_of_int L"
    using ceiling_divide_upper [OF pos, of "real n"] by simp
  then have "real_of_int (int n) \<le> real_of_int (\<lceil>real n / real_of_int L\<rceil> * L)" by simp
  then have a: "int n \<le> \<lceil>real n / real_of_int L\<rceil> * L" by (simp only: of_int_le_iff)
  have "(real_of_int \<lceil>real n / real_of_int L\<rceil> - 1) * real_of_int L < real n"
    using ceiling_divide_lower [OF pos, of "real n"] by simp
  then have "real_of_int ((\<lceil>real n / real_of_int L\<rceil> - 1) * L) < real_of_int (int n)"
    by simp
  then have b: "(\<lceil>real n / real_of_int L\<rceil> - 1) * L < int n"
    by (simp only: of_int_less_iff)
  from a b show ?thesis by simp
qed

text \<open>
  C3, as the handler has it. Let the limit and the page be read by \<open>parseInt\<close> as
  positive integers \<open>L\<close> and \<open>P\<close> with \<open>L \<le> 2 ^ 53\<close> and
  \<open>(P - 1) * L \<le> 2 ^ 53\<close>, over a connected, answering store that holds fewer than
  \<open>2 ^ 53\<close> documents \<open>c\<close> and compares \<open>schedule\<close> values by a total preorder.
  Then the handler answers 200 with the documents that follow the first \<open>(P - 1) * L\<close>
  of the collection sorted descending by \<open>schedule\<close>, at most \<open>L\<close> of them (all
  that remain, when fewer remain), and with the metadata \<open>currentPage = P\<close>,
  \<open>limit = L\<close>, \<open>totalEvents = length c\<close> and
  \<open>totalPages = \<lceil>length c / L\<rceil>\<close>, the least number of pages of size \<open>L\<close> that
  hold all documents. The store is asked for the count and for exactly this page.
\<close>

theorem getLatestEvents_page:
  assumes "parseInt (query_or limit_q 5) = Finite L" and "1 \<le> L" and "L \<le> 2 ^ 53"
    and "parseInt (query_or page_q 1) = Finite P" and "1 \<le> P" and "(P - 1) * L \<le> 2 ^ 53"
    and "db w = Some c" and "store_fault w = None" and "length c < 2 ^ 53"
    and "\<forall>a b. bson_le w a b \<or> bson_le w b a"
    and "\<forall>a b c. bson_le w a b \<and> bson_le w b c \<longrightarrow> bson_le w a c"
  shows "mset (sort_desc (bson_le w) c) = mset c
         \<and> schedule_descending (bson_le w) (sort_desc (bson_le w) c)
         \<and> fst (getLatestEvents limit_q page_q w) =
           \<lparr>status = 200, success = True, message = None,
            data = Events (take (nat L) (drop (nat ((P - 1) * L)) (sort_desc (bson_le w) c))),
            pagination = Some \<lparr>currentPage = Finite P, limit = Finite L,
                               totalEvents = Finite (int (length c)),
                               totalPages = Finite \<lceil>real (length c) / real_of_int L\<rceil>\<rparr>,
            error = None\<rparr>
         \<and> length (take (nat L) (drop (nat ((P - 1) * L)) (sort_desc (bson_le w) c)))
             = min (nat L) (length c - nat ((P - 1) * L))
         \<and> int (length c) \<le> \<lceil>real (length c) / real_of_int L\<rceil> * L
         \<and> (\<lceil>real (length c) / real_of_int L\<rceil> - 1) * L < int (length c)
         \<and> oplog (snd (getLatestEvents limit_q page_q w))
             = oplog w @ [CountDocuments, FindSortSkipLimit (Finite ((P - 1) * L)) (Finite L)]"
proof -
  have p0: "0 \<le> P - 1" using assms(5) by simp
  have "P - 1 \<le> (P - 1) * L" using p0 assms(2) by (simp add: mult_le_cancel_left1)
  with assms(6) p0 have "\<bar>P - 1\<bar> \<le> 2 ^ 53" by simp
  then have minus: "js_minus (Finite P) 1 = Finite (P - 1)" by (simp add: to_double_exact)
  have "0 \<le> (P - 1) * L" using p0 assms(2) by simp
  with assms(6) have "\<bar>(P - 1) * L\<bar> \<le> 2 ^ 53" by simp
  then have times: "js_times (Finite (P - 1)) (Finite L) = Finite ((P - 1) * L)"
    by (simp add: to_double_exact)
  have "int (length c) < int (2 ^ 53)" using assms(9) by (simp only: of_nat_less_iff)
  then have n: "int (length c) < 2 ^ 53" by simp
  then have count: "to_double (int (length c)) = Finite (int (length c))"
    by (simp add: to_double_exact)
  have pages: "Math_ceil_divide (Finite (int (length c))) (Finite L)
                 = Finite \<lceil>real (length c) / real_of_int L\<rceil>"
    using Math_ceil_divide_exact [OF _ n assms(2) assms(3)] by simp
  have valid: "\<not> L < 1" "\<not> P < 1" using assms(2,5) by simp_all
  have r: "fst (getLatestEvents limit_q page_q w) =
           \<lparr>status = 200, success = True, message = None,
            data = Events (take (nat L) (drop (nat ((P - 1) * L)) (sort_desc (bson_le w) c))),
            pagination = Some \<lparr>currentPage = Finite P, limit = Finite L,
                               totalEvents = Finite (int (length c)),
                               totalPages = Finite \<lceil>real (length c) / real_of_int L\<rceil>\<rparr>,
            error = None\<rparr>"
    by (simp add: getLatestEvents_def assms(1,4,7,8) valid isNaN_def minus times count pages
          getDB_def countDocuments_def find_sort_skip_limit_def issue_def Let_def
          del: js_minus.simps js_times.simps Math_ceil_divide.simps)
  have l: "oplog (snd (getLatestEvents limit_q page_q w))
             = oplog w @ [CountDocuments, FindSortSkipLimit (Finite ((P - 1) * L)) (Finite L)]"
    by (simp add: getLatestEvents_def assms(1,4,7,8) valid isNaN_def minus times count pages
          getDB_def countDocuments_def find_sort_skip_limit_def issue_def Let_def
          del: js_minus.simps js_times.simps Math_ceil_divide.simps)
  show ?thesis
    using r l total_pages_bounds [OF assms(2), of "length c"]
      sort_desc_sorted [OF assms(10) assms(11), of c]
    by (simp add: sort_desc_length mset_sort_desc)
qed

theorem getLatestEvents_page_witness:
  "parseInt (query_or (Some ''2'') 5) = Finite 2 \<and> (1::int) \<le> 2 \<and> (2::int) \<le> 2 ^ 53
   \<and> parseInt (query_or None 1) = Finite 1 \<and> (1::int) \<le> 1 \<and> ((1::int) - 1) * 2 \<le> 2 ^ 53
   \<and> store_fault stocked_world = None \<and> bson_le stocked_world = date_le
   \<and> fst (getLatestEvents (Some ''2'') None stocked_world) =
           \<lparr>status = 200, success = True, message = None,
            data = Events
              [[(''_id'', ObjectId ''64f5a6c1e98765432100000b''),
                (''type'', Plain (JStr ''event'')), (''schedule'', Date (Some 30))],
               [(''_id'', ObjectId ''64f5a6c1e98765432100000c''),
                (''type'', Plain (JStr ''event'')), (''schedule'', Date (Some 20))]],
            pagination = Some \<lparr>currentPage = Finite 1, limit = Finite 2,
                               totalEvents = Finite 3, totalPages = Finite 2\<rparr>,
            error = None\<rparr>"
proof -
  define docs where "docs =
        [[(''_id'', ObjectId ''64f5a6c1e98765432100000a''), (''type'', Plain (JStr ''event'')),
          (''schedule'', Date (Some 10))],
         [(''_id'', ObjectId ''64f5a6c1e98765432100000b''), (''type'', Plain (JStr ''event'')),
          (''schedule'', Date (Some 30))],
         [(''_id'', ObjectId ''64f5a6c1e98765432100000c''), (''type'', Plain (JStr ''event'')),
          (''schedule'', Date (Some 20))]]"
  have h1: "parseInt (query_or (Some ''2'') 5) = Finite 2" by (simp add: parse_defs)
  have h2: "parseInt (query_or None 1) = Finite 1" by (simp add: parse_defs)
  have h3: "db stocked_world = Some docs"
    by (simp add: stocked_world_def example_world_def docs_def)
  have h4: "store_fault stocked_world = None"
    by (simp add: stocked_world_def example_world_def)
  have h5: "bson_le stocked_world = date_le"
    by (simp add: stocked_world_def example_world_def)
  have h6: "\<forall>a b. bson_le stocked_world a b \<or> bson_le stocked_world b a"
    unfolding h5 by (rule date_le_preorder(1))
  have h7: "\<forall>a b c. bson_le stocked_world a b \<and> bson_le stocked_world b c
         \<longrightarrow> bson_le stocked_world a c"
    unfolding h5 by (rule date_le_preorder(2))
  have n1: "(1::int) \<le> 2" "(2::int) \<le> 2 ^ 53" "(1::int) \<le> 1" "((1::int) - 1) * 2 \<le> 2 ^ 53"
    by simp_all
  have n2: "length docs < 2 ^ 53" by (simp add: docs_def)
  have srt: "take (nat 2) (drop (nat ((1 - 1) * 2)) (sort_desc date_le docs)) =
              [[(''_id'', ObjectId ''64f5a6c1e98765432100000b''),
                (''type'', Plain (JStr ''event'')), (''schedule'', Date (Some 30))],
               [(''_id'', ObjectId ''64f5a6c1e98765432100000c''),
                (''type'', Plain (JStr ''event'')), (''schedule'', Date (Some 20))]]"
    by (simp add: docs_def sort_desc_def date_le_def date_rank_def)
  have pages: "\<lceil>real (length docs) / real_of_int 2\<rceil> = 2" by (simp add: docs_def)
  have len: "int (length docs) = 3" by (simp add: docs_def)
  from getLatestEvents_page [OF h1 n1(1) n1(2) h2 n1(3) n1(4) h3 h4 n2 h6 h7]
  have "fst (getLatestEvents (Some ''2'') None stocked_world) =
           \<lparr>status = 200, success = True, message = None,
            data = Events (take (nat 2) (drop (nat ((1 - 1) * 2))
                     (sort_desc (bson_le stocked_world) docs))),
            pagination = Some \<lparr>currentPage = Finite 1, limit = Finite 2,
                               totalEvents = Finite (int (length docs)),
                               totalPages = Finite \<lceil>real (length docs) / real_of_int 2\<rceil>\<rparr>,
            error = None\<rparr>"
    by (elim conjE)
  then have resp: "fst (getLatestEvents (Some ''2'') None stocked_world) =
           \<lparr>status = 200, success = True, message = None,
            data = Events
              [[(''_id'', ObjectId ''64f5a6c1e98765432100000b''),
                (''type'', Plain (JStr ''event'')), (''schedule'', Date (Some 30))],
               [(''_id'', ObjectId ''64f5a6c1e98765432100000c''),
                (''type'', Plain (JStr ''event'')), (''schedule'', Date (Some 20))]],
            pagination = Some \<lparr>currentPage = Finite 1, limit = Finite 2,
                               totalEvents = Finite 3, totalPages = Finite 2\<rparr>,
            error = None\<rparr>"
    unfolding h5 srt pages len .
  show ?thesis
    by (intro conjI h1 h2 h4 h5 n1 resp)
qed

text \<open>
  The claim as written fails where the numbers leave the integers that a double holds:
  the limit \<open>9007199254740993\<close> is the numeral of a positive integer, and the handler
  reports the limit 9007199254740992.
\<close>

theorem limit_beyond_safe_range_is_rounded:
  "spec_positive_integer ''9007199254740993''
   \<and> nat_of_digits ''9007199254740993'' = 9007199254740993
   \<and> fst (getLatestEvents (Some ''9007199254740993'') None example_world) =
           \<lparr>status = 200, success = True, message = None, data = Events [],
            pagination = Some \<lparr>currentPage = Finite 1, limit = Finite 9007199254740992,
                               totalEvents = Finite 0, totalPages = Finite 0\<rparr>,
            error = None\<rparr>"
proof -
  have p: "parseInt (query_or (Some ''9007199254740993'') 5) = Finite 9007199254740992"
    by (simp add: parseInt_def ToString_opt_def parseInt_string_def is_white_space_def
          is_digit_def nat_of_digits_def digit_value_def query_or_def to_double_rounds)
  have q: "parseInt (query_or None 1) = Finite 1" by (simp add: parse_defs)
  have s: "spec_positive_integer ''9007199254740993''
           \<and> nat_of_digits ''9007199254740993'' = 9007199254740993"
    by (simp add: spec_positive_integer_def is_digit_def nat_of_digits_def digit_value_def)
  have "fst (getLatestEvents (Some ''9007199254740993'') None example_world) =
           \<lparr>status = 200, success = True, message = None, data = Events [],
            pagination = Some \<lparr>currentPage = Finite 1, limit = Finite 9007199254740992,
                               totalEvents = Finite 0, totalPages = Finite 0\<rparr>,
            error = None\<rparr>"
    by (simp add: getLatestEvents_def p q isNaN_def to_double_def example_world_def getDB_def
          countDocuments_def find_sort_skip_limit_def issue_def sort_desc_def
          round_fraction_def Let_def)
  with s show ?thesis by simp
qed

section \<open>List-latest: validation of limit and page\<close>

text \<open>
  C7, as the handler has it. The handler reads limit and page with \<open>parseInt\<close>: an
  optional run of white space, an optional sign and the longest run of digits, whatever
  follows being ignored. When the limit so read is \<open>NaN\<close> or below one, the answer is
  400 "Limit must be a positive integer"; when the page so read is \<open>NaN\<close> or below
  one, the answer is 400 (with the page message when the limit passed); in both cases
  the process state is as it was, so no store query was made. When both pass, the answer
  is not a 400.
\<close>

theorem getLatestEvents_rejects:
  "((isNaN (parseInt (query_or limit_q 5)) \<or> js_less (parseInt (query_or limit_q 5)) 1)
      \<longrightarrow> getLatestEvents limit_q page_q w = (fail 400 ''Limit must be a positive integer'', w))
   \<and> ((isNaN (parseInt (query_or page_q 1)) \<or> js_less (parseInt (query_or page_q 1)) 1)
      \<longrightarrow> status (fst (getLatestEvents limit_q page_q w)) = 400
        \<and> snd (getLatestEvents limit_q page_q w) = w
        \<and> (\<not> (isNaN (parseInt (query_or limit_q 5))
               \<or> js_less (parseInt (query_or limit_q 5)) 1)
             \<longrightarrow> getLatestEvents limit_q page_q w
                   = (fail 400 ''Page must be a positive integer'', w)))
   \<and> (\<not> (isNaN (parseInt (query_or limit_q 5)) \<or> js_less (parseInt (query_or limit_q 5)) 1)
        \<and> \<not> (isNaN (parseInt (query_or page_q 1)) \<or> js_less (parseInt (query_or page_q 1)) 1)
      \<longrightarrow> status (fst (getLatestEvents limit_q page_q w)) \<noteq> 400)"
  by (auto simp: getLatestEvents_def Let_def fail_def internal_error_def countDocuments_def
        find_sort_skip_limit_def split: option.splits sum.splits jsnum.splits)

theorem getLatestEvents_rejects_witness:
  "isNaN (parseInt (query_or (Some ''abc'') 5))
   \<and> getLatestEvents (Some ''abc'') None stocked_world
       = (fail 400 ''Limit must be a positive integer'', stocked_world)
   \<and> js_less (parseInt (query_or (Some ''-3'') 1)) 1
   \<and> \<not> (isNaN (parseInt (query_or None 5)) \<or> js_less (parseInt (query_or None 5)) 1)
   \<and> getLatestEvents None (Some ''-3'') stocked_world
       = (fail 400 ''Page must be a positive integer'', stocked_world)
   \<and> \<not> (isNaN (parseInt (query_or (Some ''7'') 1))
         \<or> js_less (parseInt (query_or (Some ''7'') 1)) 1)
   \<and> status (fst (getLatestEvents None (Some ''7'') stocked_world)) \<noteq> 400"
proof -
  have h1: "parseInt (query_or (Some ''abc'') 5) = NotANumber" by (simp add: parse_defs)
  have h2: "parseInt (query_or (Some ''-3'') 1) = Finite (- 3)" by (simp add: parse_defs)
  have h3: "parseInt (query_or None 5) = Finite 5" by (simp add: parse_defs)
  have h4: "parseInt (query_or (Some ''7'') 1) = Finite 7" by (simp add: parse_defs)
  show ?thesis
    using getLatestEvents_rejects [of "Some ''abc''" None stocked_world]
      getLatestEvents_rejects [of None "Some ''-3''" stocked_world]
      getLatestEvents_rejects [of None "Some ''7''" stocked_world]
    by (simp add: h1 h2 h3 h4 isNaN_def)
qed

text \<open>
  The claim as written fails at the limit \<open>5abc\<close>: it is no numeral of a positive
  integer, yet the handler reads it as 5, answers 200 and queries the store.
\<close>

theorem limit_with_trailing_text_accepted:
  "\<not> spec_positive_integer ''5abc''
   \<and> status (fst (getLatestEvents (Some ''5abc'') None example_world)) = 200
   \<and> oplog (snd (getLatestEvents (Some ''5abc'') None example_world))
       = [CountDocuments, FindSortSkipLimit (Finite 0) (Finite 5)]"
proof -
  have p: "parseInt (query_or (Some ''5abc'') 5) = Finite 5" by (simp add: parse_defs)
  have q: "parseInt (query_or None 1) = Finite 1" by (simp add: parse_defs)
  show ?thesis
    by (simp add: spec_positive_integer_def is_digit_def getLatestEvents_def p q isNaN_def
          to_double_def example_world_def getDB_def countDocuments_def
          find_sort_skip_limit_def issue_def Let_def)
qed

section \<open>Create: the document built from a name alone\<close>

lemmas create_defs = createEvent_def eventDocument_def new_Date_def getDB_def insertOne_def
  issue_def or_else_def to_Date_def number_def Let_def

text \<open>
  C2, as the handler has it. For a Create request whose body holds only a non-empty
  \<open>name\<close>, over a connected, answering store that does not yet hold the identifier the
  driver generates, the answer is 201 and the document appended to the collection has
  \<open>type = "event"\<close>, \<open>tagline = ""\<close>, \<open>attendees = []\<close>, \<open>rigor_rank = 0\<close>,
  \<open>files = {image: null}\<close>, and the other defaults; \<open>schedule\<close>, \<open>createdAt\<close> and
  \<open>updatedAt\<close> are three successive readings of the clock, in this order, so
  \<open>createdAt\<close> and \<open>updatedAt\<close> are equal exactly when the clock did not advance
  between the second and the third reading.
\<close>

theorem createEvent_name_only:
  assumes "n \<noteq> []" and "db w = Some c" and "store_fault w = None"
    and "\<not> list_ex (has_id (oid_gen w (oids_made w))) c"
  shows "status (fst (createEvent (Some [(''name'', JStr n)]) w)) = 201
    \<and> db (snd (createEvent (Some [(''name'', JStr n)]) w)) = Some (c @
        [[(''_id'', ObjectId (oid_gen w (oids_made w))),
          (''type'', Plain (JStr ''event'')),
          (''uid'', Plain JNull),
          (''name'', Plain (JStr n)),
          (''tagline'', Plain (JStr [])),
          (''schedule'', Date (Some (clock w (clock_reads w)))),
          (''description'', Plain (JStr [])),
          (''files'', Plain (JObj [(''image'', JNull)])),
          (''moderator'', Plain JNull),
          (''category'', Plain (JStr [])),
          (''sub_category'', Plain (JStr [])),
          (''rigor_rank'', Plain (JNum 0)),
          (''attendees'', Plain (JArr [])),
          (''createdAt'', Date (Some (clock w (Suc (clock_reads w))))),
          (''updatedAt'', Date (Some (clock w (Suc (Suc (clock_reads w))))))]])"
  using assms by (simp add: create_defs)

theorem createEvent_name_only_witness:
  "''X'' \<noteq> [] \<and> db frozen_clock_world = Some [] \<and> store_fault frozen_clock_world = None
   \<and> \<not> list_ex (has_id (oid_gen frozen_clock_world (oids_made frozen_clock_world))) []
   \<and> status (fst (createEvent (Some [(''name'', JStr ''X'')]) frozen_clock_world)) = 201
   \<and> db (snd (createEvent (Some [(''name'', JStr ''X'')]) frozen_clock_world)) = Some
        [[(''_id'', ObjectId ''64f5a6c1e987654321000000''),
          (''type'', Plain (JStr ''event'')),
          (''uid'', Plain JNull),
          (''name'', Plain (JStr ''X'')),
          (''tagline'', Plain (JStr [])),
          (''schedule'', Date (Some 1700000000000)),
          (''description'', Plain (JStr [])),
          (''files'', Plain (JObj [(''image'', JNull)])),
          (''moderator'', Plain JNull),
          (''category'', Plain (JStr [])),
          (''sub_category'', Plain (JStr [])),
          (''rigor_rank'', Plain (JNum 0)),
          (''attendees'', Plain (JArr [])),
          (''createdAt'', Date (Some 1700000000000)),
          (''updatedAt'', Date (Some 1700000000000))]]"
proof -
  have h: "db frozen_clock_world = Some []" "store_fault frozen_clock_world = None"
    "\<not> list_ex (has_id (oid_gen frozen_clock_world (oids_made frozen_clock_world))) []"
    by (simp_all add: frozen_clock_world_def example_world_def)
  have g: "oid_gen frozen_clock_world (oids_made frozen_clock_world) = ''64f5a6c1e987654321000000''"
    "clock frozen_clock_world = (\<lambda>k. 1700000000000)"
    by (simp_all add: frozen_clock_world_def example_world_def digit_char_def)
  show ?thesis
    using h createEvent_name_only [OF _ h, of "''X''"]
    by (simp add: g)
qed

text \<open>
  With a clock that advances between the readings, \<open>createdAt\<close> and \<open>updatedAt\<close> of
  the stored document differ.
\<close>

theorem createdAt_updatedAt_differ_when_clock_ticks:
  "db (snd (createEvent (Some [(''name'', JStr ''X'')]) example_world)) = Some
        [[(''_id'', ObjectId ''64f5a6c1e987654321000000''),
          (''type'', Plain (JStr ''event'')),
          (''uid'', Plain JNull),
          (''name'', Plain (JStr ''X'')),
          (''tagline'', Plain (JStr [])),
          (''schedule'', Date (Some 1700000000000)),
          (''description'', Plain (JStr [])),
          (''files'', Plain (JObj [(''image'', JNull)])),
          (''moderator'', Plain JNull),
          (''category'', Plain (JStr [])),
          (''sub_category'', Plain (JStr [])),
          (''rigor_rank'', Plain (JNum 0)),
          (''attendees'', Plain (JArr [])),
          (''createdAt'', Date (Some 1700000000001)),
          (''updatedAt'', Date (Some 1700000000002))]]
   \<and> Date (Some 1700000000001) \<noteq> Date (Some 1700000000002)"
  by (simp add: create_defs example_world_def digit_char_def has_id_def)

section \<open>The stored rigor rank\<close>

text \<open>
  C5. The claim is that a \<open>rigor_rank\<close> present in a Create or Update input is stored
  as an integer. The handlers store what \<open>parseInt\<close> returns without looking at it:
  Create with \<open>rigor_rank: "abc"\<close> and Update with \<open>rigor_rank: null\<close> both succeed and
  store \<open>NaN\<close>.
\<close>

theorem unparseable_rigor_rank_stored_as_NaN:
  "status (fst (createEvent (Some [(''name'', JStr ''X''), (''rigor_rank'', JStr ''abc'')]) example_world)) = 201
   \<and> db (snd (createEvent (Some [(''name'', JStr ''X''), (''rigor_rank'', JStr ''abc'')]) example_world)) = Some
        [[(''_id'', ObjectId ''64f5a6c1e987654321000000''),
          (''type'', Plain (JStr ''event'')),
          (''uid'', Plain JNull),
          (''name'', Plain (JStr ''X'')),
          (''tagline'', Plain (JStr [])),
          (''schedule'', Date (Some 1700000000000)),
          (''description'', Plain (JStr [])),
          (''files'', Plain (JObj [(''image'', JNull)])),
          (''moderator'', Plain JNull),
          (''category'', Plain (JStr [])),
          (''sub_category'', Plain (JStr [])),
          (''rigor_rank'', NaN),
          (''attendees'', Plain (JArr [])),
          (''createdAt'', Date (Some 1700000000001)),
          (''updatedAt'', Date (Some 1700000000002))]]
   \<and> status (fst (updateEvent (Some ''64f5a6c1e98765432100000a'') (Some [(''rigor_rank'', JNull)]) stocked_world)) = 200
   \<and> oplog (snd (updateEvent (Some ''64f5a6c1e98765432100000a'') (Some [(''rigor_rank'', JNull)]) stocked_world))
       = [UpdateOne ''64f5a6c1e98765432100000a''
            [(''rigor_rank'', NaN), (''updatedAt'', Date (Some 1700000000000))]]
   \<and> (case db (snd (updateEvent (Some ''64f5a6c1e98765432100000a'') (Some [(''rigor_rank'', JNull)]) stocked_world)) of
         Some (d # ds) \<Rightarrow> map_of d ''rigor_rank''
       | _ \<Rightarrow> None) = Some NaN"
  by (simp add: create_defs example_world_def stocked_world_def digit_char_def has_id_def parse_defs
       updateEvent_def updateFields_def updateOne_def set_fields_def ObjectId_isValid_def
       is_hex_digit_def ObjectId_new_def to_lower_hex_def ok_def AList.delete_eq)

section \<open>Error detail in failure responses\<close>

text \<open>
  C4. The claim is that a failure response of the five handlers carries the raw error
  message only outside production. In a process with \<open>NODE_ENV = production\<close> whose
  store rejects the driver call, each of the five handlers answers 500 with the raw
  message in \<open>error\<close>; only the global error handler of the server withholds it.
\<close>

theorem handler_error_detail_in_production:
  "node_env failing_world = Some ''production''
   \<and> fst (getEventById (Some ''64f5a6c1e98765432100000a'') failing_world) =
       \<lparr>status = 500, success = False, message = Some ''Internal server error'', data = NoData,
        pagination = None, error = Some ''connection closed''\<rparr>
   \<and> error (fst (getLatestEvents None None failing_world)) = Some ''connection closed''
   \<and> error (fst (createEvent (Some [(''name'', JStr ''X'')]) failing_world)) = Some ''connection closed''
   \<and> error (fst (updateEvent (Some ''64f5a6c1e98765432100000a'') (Some [(''name'', JStr ''Y'')]) failing_world))
       = Some ''connection closed''
   \<and> error (fst (deleteEvent (Some ''64f5a6c1e98765432100000a'') failing_world)) = Some ''connection closed''
   \<and> error (fst (global_error_handler ''connection closed'' failing_world)) = None"
  by (simp add: failing_world_def example_world_def getEventById_def getLatestEvents_def
        create_defs updateEvent_def deleteEvent_def global_error_handler_def internal_error_def
        ObjectId_isValid_def is_hex_digit_def findOne_def countDocuments_def updateOne_def
        deleteOne_def parse_defs)

section \<open>Update: what is written and what is kept\<close>

lemma map_of_set_fields:
  "map_of (set_fields upd d) k = (case map_of upd k of None \<Rightarrow> map_of d k | Some v \<Rightarrow> Some v)"
  by (induction upd) (auto simp: set_fields_def update_conv')

lemma map_of_Plain:
  "map_of (map (\<lambda>kv. (fst kv, Plain (snd kv))) b) k = map_option Plain (map_of b k)"
  by (induction b) auto

lemma map_of_updateFields:
  "map_of (updateFields w body now) k =
     (if k = ''updatedAt'' then Some now
      else if k = ''_id'' \<or> k = ''type'' then None
      else case map_of body k of
             None \<Rightarrow> None
           | Some v \<Rightarrow>
               Some (if k = ''schedule'' \<and> truthy (Some v) then Date (date_parse w v)
                     else if k = ''rigor_rank'' then number (parseInt (Some v))
                     else Plain v))"
  by (cases "map_of body k")
     (auto simp: updateFields_def Let_def update_conv' delete_conv' map_of_Plain
        to_Date_def split: option.splits)

lemma update_first_shape:
  "update_first oid upd c = (r, c') \<Longrightarrow>
     (r = (0, 0) \<and> c' = c \<and> \<not> list_ex (has_id oid) c)
   \<or> (\<exists>pre d post. c = pre @ d # post \<and> \<not> list_ex (has_id oid) pre \<and> has_id oid d
        \<and> r = (1, if set_fields upd d = d then 0 else 1)
        \<and> c' = pre @ set_fields upd d # post)"
proof (induction c arbitrary: r c')
  case Nil
  then show ?case by simp
next
  case (Cons e es)
  show ?case
  proof (cases "has_id oid e")
    case True
    with Cons.prems have "r = (1, if set_fields upd e = e then 0 else 1)"
      "c' = set_fields upd e # es" by auto
    with True have "e # es = [] @ e # es \<and> \<not> list_ex (has_id oid) [] \<and> has_id oid e
        \<and> r = (1, if set_fields upd e = e then 0 else 1)
        \<and> c' = [] @ set_fields upd e # es" by simp
    then show ?thesis by blast
  next
    case False
    obtain r0 c0 where u: "update_first oid upd es = (r0, c0)" by (cases "update_first oid upd es")
    with False Cons.prems have rc: "r = r0" "c' = e # c0" by auto
    from Cons.IH [OF u] show ?thesis
    proof
      assume "r0 = (0, 0) \<and> c0 = es \<and> \<not> list_ex (has_id oid) es"
      with False rc show ?thesis by simp
    next
      assume "\<exists>pre d post. es = pre @ d # post \<and> \<not> list_ex (has_id oid) pre \<and> has_id oid d
        \<and> r0 = (1, if set_fields upd d = d then 0 else 1)
        \<and> c0 = pre @ set_fields upd d # post"
      then obtain pre d post where p: "es = pre @ d # post" "\<not> list_ex (has_id oid) pre"
        "has_id oid d" "r0 = (1, if set_fields upd d = d then 0 else 1)"
        "c0 = pre @ set_fields upd d # post" by blast
      with False rc have "e # es = (e # pre) @ d # post \<and> \<not> list_ex (has_id oid) (e # pre)
        \<and> has_id oid d \<and> r = (1, if set_fields upd d = d then 0 else 1)
        \<and> c' = (e # pre) @ set_fields upd d # post" by simp
      then show ?thesis by blast
    qed
  qed
qed

lemma update_first_frame:
  assumes "update_first oid upd c = (r, c')" and "map_of upd k = None"
  shows "length c' = length c \<and> (\<forall>i<length c. map_of (c' ! i) k = map_of (c ! i) k)"
  using assms
proof (induction c arbitrary: r c')
  case Nil
  then show ?case by simp
next
  case (Cons e es)
  show ?case
  proof (cases "has_id oid e")
    case True
    with Cons.prems have "c' = set_fields upd e # es" by auto
    with Cons.prems(2) show ?thesis
      by (auto simp: map_of_set_fields nth_Cons split: nat.splits)
  next
    case False
    obtain r0 c0 where u: "update_first oid upd es = (r0, c0)" by (cases "update_first oid upd es")
    with False Cons.prems have rc: "c' = e # c0" by auto
    from Cons.IH [OF u Cons.prems(2)] rc show ?thesis
      by (auto simp: nth_Cons split: nat.splits)
  qed
qed


lemma updateEvent_run:
  assumes "s \<noteq> []" and "ObjectId_isValid s" and "body \<noteq> []"
    and "db w = Some c" and "store_fault w = None"
    and "update_first (ObjectId_new s)
           (updateFields w body (Date (Some (clock w (clock_reads w))))) c = ((m, n), c')"
  shows "fst (updateEvent (Some s) (Some body) w) =
           (if m = 0 then fail 404 ''Event not found''
            else ok (Some ''Event updated successfully'') (ModifiedCount n))"
    and "db (snd (updateEvent (Some s) (Some body) w)) = Some c'"
    and "oplog (snd (updateEvent (Some s) (Some body) w)) =
           oplog w @ [UpdateOne (ObjectId_new s)
                        (updateFields w body (Date (Some (clock w (clock_reads w)))))]"
  using assms
  by (simp_all add: updateEvent_def new_Date_def getDB_def updateOne_def issue_def
        updateFields_def)

lemma updateEvent_idle:
  assumes "db w = Some c"
    and "\<not> (\<exists>s. ident = Some s \<and> s \<noteq> [] \<and> ObjectId_isValid s \<and> body \<noteq> []
              \<and> store_fault w = None)"
  shows "db (snd (updateEvent ident (Some body) w)) = Some c"
    and "status (fst (updateEvent ident (Some body) w)) \<noteq> 200"
    and "UpdateOne oid upd \<in> set (oplog (snd (updateEvent ident (Some body) w))) - set (oplog w)
         \<Longrightarrow> map_of upd ''_id'' = None \<and> map_of upd ''type'' = None"
  using assms
  by (auto simp: updateEvent_def fail_def internal_error_def getDB_def new_Date_def
        updateOne_def issue_def map_of_updateFields split: option.splits if_splits)

lemmas eval_update_defs = updateEvent_def updateFields_def updateOne_def set_fields_def
  new_Date_def getDB_def issue_def ObjectId_isValid_def is_hex_digit_def ObjectId_new_def
  to_lower_hex_def has_id_def ok_def fail_def AList.delete_eq to_Date_def number_def Let_def

text \<open>
  What Update does to the collection when the body was parsed.
\<close>

lemma updateEvent_parsed_body:
  assumes "db w = Some c"
  shows "\<exists>c'. db (snd (updateEvent ident (Some body) w)) = Some c'
     \<and> length c' = length c
     \<and> (\<forall>i<length c. map_of (c' ! i) ''_id'' = map_of (c ! i) ''_id''
                      \<and> map_of (c' ! i) ''type'' = map_of (c ! i) ''type'')
     \<and> (\<forall>oid upd. UpdateOne oid upd \<in> set (oplog (snd (updateEvent ident (Some body) w))) - set (oplog w)
           \<longrightarrow> map_of upd ''_id'' = None \<and> map_of upd ''type'' = None)
     \<and> (status (fst (updateEvent ident (Some body) w)) = 200 \<longrightarrow>
          (\<exists>s pre d d' post.
             ident = Some s \<and> c = pre @ d # post \<and> c' = pre @ d' # post
             \<and> \<not> list_ex (has_id (ObjectId_new s)) pre \<and> has_id (ObjectId_new s) d
             \<and> (\<forall>k. map_of d' k =
                  (if k = ''updatedAt'' then Some (Date (Some (clock w (clock_reads w))))
                   else if k = ''_id'' \<or> k = ''type'' then map_of d k
                   else case map_of body k of
                          None \<Rightarrow> map_of d k
                        | Some v \<Rightarrow>
                            Some (if k = ''schedule'' \<and> truthy (Some v)
                                  then Date (date_parse w v)
                                  else if k = ''rigor_rank'' then number (parseInt (Some v))
                                  else Plain v)))))"
proof (cases "\<exists>s. ident = Some s \<and> s \<noteq> [] \<and> ObjectId_isValid s \<and> body \<noteq> []
              \<and> store_fault w = None")
  case False
  from updateEvent_idle [OF assms False] show ?thesis by simp
next
  case True
  then obtain s where s: "ident = Some s" "s \<noteq> []" "ObjectId_isValid s" "body \<noteq> []"
    "store_fault w = None" by blast
  define now where "now = Date (Some (clock w (clock_reads w)))"
  define upd where "upd = updateFields w body now"
  obtain m n c' where u: "update_first (ObjectId_new s) upd c = ((m, n), c')"
    by (cases "update_first (ObjectId_new s) upd c") auto
  have run: "fst (updateEvent (Some s) (Some body) w) =
           (if m = 0 then fail 404 ''Event not found''
            else ok (Some ''Event updated successfully'') (ModifiedCount n))"
    "db (snd (updateEvent (Some s) (Some body) w)) = Some c'"
    "oplog (snd (updateEvent (Some s) (Some body) w)) = oplog w @ [UpdateOne (ObjectId_new s) upd]"
    using updateEvent_run [OF s(2) s(3) s(4) assms s(5)] u
    by (simp_all add: upd_def now_def)
  have none: "map_of upd ''_id'' = None" "map_of upd ''type'' = None"
    by (simp_all add: upd_def map_of_updateFields)
  have frame: "length c' = length c"
    "\<forall>i<length c. map_of (c' ! i) ''_id'' = map_of (c ! i) ''_id''"
    "\<forall>i<length c. map_of (c' ! i) ''type'' = map_of (c ! i) ''type''"
    using update_first_frame [OF u none(1)] update_first_frame [OF u none(2)] by simp_all
  have merged: "\<exists>pre d d' post.
             c = pre @ d # post \<and> c' = pre @ d' # post
             \<and> \<not> list_ex (has_id (ObjectId_new s)) pre \<and> has_id (ObjectId_new s) d
             \<and> (\<forall>k. map_of d' k =
                  (if k = ''updatedAt'' then Some now
                   else if k = ''_id'' \<or> k = ''type'' then map_of d k
                   else case map_of body k of
                          None \<Rightarrow> map_of d k
                        | Some v \<Rightarrow>
                            Some (if k = ''schedule'' \<and> truthy (Some v)
                                  then Date (date_parse w v)
                                  else if k = ''rigor_rank'' then number (parseInt (Some v))
                                  else Plain v)))"
    if ok: "status (fst (updateEvent ident (Some body) w)) = 200"
  proof -
    from ok run(1) s(1) have "m \<noteq> 0" by (auto simp: fail_def split: if_splits)
    with update_first_shape [OF u] obtain pre d post where p:
      "c = pre @ d # post" "\<not> list_ex (has_id (ObjectId_new s)) pre"
      "has_id (ObjectId_new s) d" "c' = pre @ set_fields upd d # post" by auto
    have "\<forall>k. map_of (set_fields upd d) k =
                  (if k = ''updatedAt'' then Some now
                   else if k = ''_id'' \<or> k = ''type'' then map_of d k
                   else case map_of body k of
                          None \<Rightarrow> map_of d k
                        | Some v \<Rightarrow>
                            Some (if k = ''schedule'' \<and> truthy (Some v)
                                  then Date (date_parse w v)
                                  else if k = ''rigor_rank'' then number (parseInt (Some v))
                                  else Plain v))"
      by (simp add: map_of_set_fields upd_def map_of_updateFields split: option.splits)
    with p show ?thesis by blast
  qed
  have dropped: "\<forall>oid u. UpdateOne oid u \<in> set (oplog (snd (updateEvent ident (Some body) w))) - set (oplog w)
           \<longrightarrow> map_of u ''_id'' = None \<and> map_of u ''type'' = None"
    using run(3) none s(1) by auto
  show ?thesis
    using run(2) frame merged dropped s(1) unfolding now_def by auto
qed

lemma updateEvent_no_body:
  assumes "db w = Some c"
  shows "db (snd (updateEvent ident None w)) = Some c"
    and "status (fst (updateEvent ident None w)) \<noteq> 200"
    and "oplog (snd (updateEvent ident None w)) = oplog w"
  using assms
  by (auto simp: updateEvent_def fail_def internal_error_def split: option.splits)

text \<open>
  C6. Whatever the identifier and the payload of an Update request (\<open>req.body\<close>
  may also be \<open>undefined\<close>), every document of the collection keeps its \<open>_id\<close> and its \<open>type\<close>, and the collection keeps its
  length; an update set sent to the store never holds the keys \<open>_id\<close> or \<open>type\<close>. When
  the request succeeds, exactly the first document with the identifier is rewritten, and
  it is the merge of the payload into the old document: \<open>updatedAt\<close> is the clock
  reading of the request, \<open>_id\<close> and \<open>type\<close> are the old ones, every other key of the
  payload carries the payload's value (\<open>schedule\<close> as a date when truthy,
  \<open>rigor_rank\<close> through \<open>parseInt\<close>), and every key the payload does not name is
  as before.
\<close>

theorem updateEvent_keeps_id_and_type:
  assumes "db w = Some c"
  shows "\<exists>c'. db (snd (updateEvent ident req_body w)) = Some c'
     \<and> length c' = length c
     \<and> (\<forall>i<length c. map_of (c' ! i) ''_id'' = map_of (c ! i) ''_id''
                      \<and> map_of (c' ! i) ''type'' = map_of (c ! i) ''type'')
     \<and> (\<forall>oid upd. UpdateOne oid upd \<in> set (oplog (snd (updateEvent ident req_body w))) - set (oplog w)
           \<longrightarrow> map_of upd ''_id'' = None \<and> map_of upd ''type'' = None)
     \<and> (status (fst (updateEvent ident req_body w)) = 200 \<longrightarrow>
          (\<exists>s body pre d d' post.
             ident = Some s \<and> req_body = Some body \<and> c = pre @ d # post \<and> c' = pre @ d' # post
             \<and> \<not> list_ex (has_id (ObjectId_new s)) pre \<and> has_id (ObjectId_new s) d
             \<and> (\<forall>k. map_of d' k =
                  (if k = ''updatedAt'' then Some (Date (Some (clock w (clock_reads w))))
                   else if k = ''_id'' \<or> k = ''type'' then map_of d k
                   else case map_of body k of
                          None \<Rightarrow> map_of d k
                        | Some v \<Rightarrow>
                            Some (if k = ''schedule'' \<and> truthy (Some v)
                                  then Date (date_parse w v)
                                  else if k = ''rigor_rank'' then number (parseInt (Some v))
                                  else Plain v)))))"
proof (cases req_body)
  case None
  from updateEvent_no_body [OF assms, of ident] show ?thesis
    unfolding None by simp
next
  case (Some body)
  from updateEvent_parsed_body [OF assms, of ident body]
  obtain c' where c': "db (snd (updateEvent ident (Some body) w)) = Some c'"
    "length c' = length c"
    "\<forall>i<length c. map_of (c' ! i) ''_id'' = map_of (c ! i) ''_id''
                      \<and> map_of (c' ! i) ''type'' = map_of (c ! i) ''type''"
    "\<forall>oid upd. UpdateOne oid upd \<in> set (oplog (snd (updateEvent ident (Some body) w))) - set (oplog w)
           \<longrightarrow> map_of upd ''_id'' = None \<and> map_of upd ''type'' = None"
    "status (fst (updateEvent ident (Some body) w)) = 200 \<longrightarrow>
          (\<exists>s pre d d' post.
             ident = Some s \<and> c = pre @ d # post \<and> c' = pre @ d' # post
             \<and> \<not> list_ex (has_id (ObjectId_new s)) pre \<and> has_id (ObjectId_new s) d
             \<and> (\<forall>k. map_of d' k =
                  (if k = ''updatedAt'' then Some (Date (Some (clock w (clock_reads w))))
                   else if k = ''_id'' \<or> k = ''type'' then map_of d k
                   else case map_of body k of
                          None \<Rightarrow> map_of d k
                        | Some v \<Rightarrow>
                            Some (if k = ''schedule'' \<and> truthy (Some v)
                                  then Date (date_parse w v)
                                  else if k = ''rigor_rank'' then number (parseInt (Some v))
                                  else Plain v))))"
    by blast
  have m: "status (fst (updateEvent ident req_body w)) = 200 \<longrightarrow>
          (\<exists>s body pre d d' post.
             ident = Some s \<and> req_body = Some body \<and> c = pre @ d # post
             \<and> c' = pre @ d' # post
             \<and> \<not> list_ex (has_id (ObjectId_new s)) pre \<and> has_id (ObjectId_new s) d
             \<and> (\<forall>k. map_of d' k =
                  (if k = ''updatedAt'' then Some (Date (Some (clock w (clock_reads w))))
                   else if k = ''_id'' \<or> k = ''type'' then map_of d k
                   else case map_of body k of
                          None \<Rightarrow> map_of d k
                        | Some v \<Rightarrow>
                            Some (if k = ''schedule'' \<and> truthy (Some v)
                                  then Date (date_parse w v)
                                  else if k = ''rigor_rank'' then number (parseInt (Some v))
                                  else Plain v))))"
  proof
    assume "status (fst (updateEvent ident req_body w)) = 200"
    with c'(5) Some obtain s pre d d' post where
      "ident = Some s" "c = pre @ d # post" "c' = pre @ d' # post"
      "\<not> list_ex (has_id (ObjectId_new s)) pre" "has_id (ObjectId_new s) d"
      "\<forall>k. map_of d' k =
                  (if k = ''updatedAt'' then Some (Date (Some (clock w (clock_reads w))))
                   else if k = ''_id'' \<or> k = ''type'' then map_of d k
                   else case map_of body k of
                          None \<Rightarrow> map_of d k
                        | Some v \<Rightarrow>
                            Some (if k = ''schedule'' \<and> truthy (Some v)
                                  then Date (date_parse w v)
                                  else if k = ''rigor_rank'' then number (parseInt (Some v))
                                  else Plain v))"
      by blast
    with Some show "\<exists>s body pre d d' post.
             ident = Some s \<and> req_body = Some body \<and> c = pre @ d # post
             \<and> c' = pre @ d' # post
             \<and> \<not> list_ex (has_id (ObjectId_new s)) pre \<and> has_id (ObjectId_new s) d
             \<and> (\<forall>k. map_of d' k =
                  (if k = ''updatedAt'' then Some (Date (Some (clock w (clock_reads w))))
                   else if k = ''_id'' \<or> k = ''type'' then map_of d k
                   else case map_of body k of
                          None \<Rightarrow> map_of d k
                        | Some v \<Rightarrow>
                            Some (if k = ''schedule'' \<and> truthy (Some v)
                                  then Date (date_parse w v)
                                  else if k = ''rigor_rank'' then number (parseInt (Some v))
                                  else Plain v)))"
      by blast
  qed
  show ?thesis
    by (rule exI [of _ c']) (intro conjI c'(1-4) [folded Some] m)
qed

theorem updateEvent_keeps_id_and_type_witness:
  "db stocked_world = Some
        [[(''_id'', ObjectId ''64f5a6c1e98765432100000a''), (''type'', Plain (JStr ''event'')),
          (''schedule'', Date (Some 10))],
         [(''_id'', ObjectId ''64f5a6c1e98765432100000b''), (''type'', Plain (JStr ''event'')),
          (''schedule'', Date (Some 30))],
         [(''_id'', ObjectId ''64f5a6c1e98765432100000c''), (''type'', Plain (JStr ''event'')),
          (''schedule'', Date (Some 20))]]
   \<and> status (fst (updateEvent (Some ''64f5a6c1e98765432100000b'')
        (Some [(''_id'', JStr ''000000000000000000000000''), (''type'', JStr ''meeting''),
         (''name'', JStr ''New'')]) stocked_world)) = 200
   \<and> (case db (snd (updateEvent (Some ''64f5a6c1e98765432100000b'')
        (Some [(''_id'', JStr ''000000000000000000000000''), (''type'', JStr ''meeting''),
         (''name'', JStr ''New'')]) stocked_world)) of
         Some [d1, d2, d3] \<Rightarrow>
           map_of d2 ''_id'' = Some (ObjectId ''64f5a6c1e98765432100000b'')
           \<and> map_of d2 ''type'' = Some (Plain (JStr ''event''))
           \<and> map_of d2 ''name'' = Some (Plain (JStr ''New''))
           \<and> map_of d2 ''updatedAt'' = Some (Date (Some 1700000000000))
       | _ \<Rightarrow> False)"
proof -
  have h: "db stocked_world = Some
        [[(''_id'', ObjectId ''64f5a6c1e98765432100000a''), (''type'', Plain (JStr ''event'')),
          (''schedule'', Date (Some 10))],
         [(''_id'', ObjectId ''64f5a6c1e98765432100000b''), (''type'', Plain (JStr ''event'')),
          (''schedule'', Date (Some 30))],
         [(''_id'', ObjectId ''64f5a6c1e98765432100000c''), (''type'', Plain (JStr ''event'')),
          (''schedule'', Date (Some 20))]]"
    by (simp add: stocked_world_def example_world_def)
  have e: "store_fault stocked_world = None" "clock stocked_world = (\<lambda>k. 1700000000000 + int k)"
    "clock_reads stocked_world = 0" "oplog stocked_world = []"
    by (simp_all add: stocked_world_def example_world_def)
  show ?thesis
    using updateEvent_keeps_id_and_type [OF h, of "Some ''64f5a6c1e98765432100000b''"
        "Some [(''_id'', JStr ''000000000000000000000000''), (''type'', JStr ''meeting''),
         (''name'', JStr ''New'')]"]
    by (simp add: h e eval_update_defs)
qed

section \<open>Update with reserved keys only\<close>

lemma delete_reserved:
  "fst ` set body \<subseteq> {''_id'', ''type''} \<Longrightarrow> AList.delete ''type'' (AList.delete ''_id'' body) = []"
  by (induction body) (auto simp: AList.delete_eq)

lemma updateFields_reserved_only:
  "fst ` set body \<subseteq> {''_id'', ''type''} \<Longrightarrow> updateFields w body now = [(''updatedAt'', now)]"
  by (simp add: updateFields_def delete_reserved)

text \<open>
  C10. An Update request with a well-formed identifier of a stored document, over a
  connected, answering store, whose body is not empty and names only \<open>_id\<close> and
  \<open>type\<close>, passes the emptiness check, is answered 200, and the update set sent to the
  store holds \<open>updatedAt\<close> alone: the matching document changes in that field only.
\<close>

theorem update_with_reserved_keys_only:
  assumes "body \<noteq> []" and "fst ` set body \<subseteq> {''_id'', ''type''}"
    and "ObjectId_isValid s" and "db w = Some c" and "store_fault w = None"
    and "list_ex (has_id (ObjectId_new s)) c"
  shows "status (fst (updateEvent (Some s) (Some body) w)) = 200
     \<and> message (fst (updateEvent (Some s) (Some body) w)) = Some ''Event updated successfully''
     \<and> oplog (snd (updateEvent (Some s) (Some body) w)) =
          oplog w @ [UpdateOne (ObjectId_new s)
                       [(''updatedAt'', Date (Some (clock w (clock_reads w))))]]
     \<and> (\<exists>pre d post. c = pre @ d # post \<and> \<not> list_ex (has_id (ObjectId_new s)) pre
          \<and> has_id (ObjectId_new s) d
          \<and> db (snd (updateEvent (Some s) (Some body) w)) =
              Some (pre @ AList.update ''updatedAt'' (Date (Some (clock w (clock_reads w)))) d
                      # post))"
proof -
  define now where "now = Date (Some (clock w (clock_reads w)))"
  have upd: "updateFields w body now = [(''updatedAt'', now)]"
    using assms(2) by (rule updateFields_reserved_only)
  obtain m n c' where u: "update_first (ObjectId_new s) [(''updatedAt'', now)] c = ((m, n), c')"
    by (cases "update_first (ObjectId_new s) [(''updatedAt'', now)] c") auto
  have ne: "s \<noteq> []" using assms(3) by (rule isValid_nonempty)
  note run = updateEvent_run [OF ne assms(3) assms(1) assms(4) assms(5),
      unfolded now_def [symmetric] upd, OF u]
  from update_first_shape [OF u] assms(6) obtain pre d post where p:
    "c = pre @ d # post" "\<not> list_ex (has_id (ObjectId_new s)) pre"
    "has_id (ObjectId_new s) d" "m = 1"
    "c' = pre @ set_fields [(''updatedAt'', now)] d # post" by auto
  have a: "status (fst (updateEvent (Some s) (Some body) w)) = 200
     \<and> message (fst (updateEvent (Some s) (Some body) w)) = Some ''Event updated successfully''"
    using run(1) p(4) by (simp add: ok_def)
  have b: "oplog (snd (updateEvent (Some s) (Some body) w)) =
          oplog w @ [UpdateOne (ObjectId_new s)
                       [(''updatedAt'', Date (Some (clock w (clock_reads w))))]]"
    using run(3) by (simp add: now_def)
  have "db (snd (updateEvent (Some s) (Some body) w)) =
              Some (pre @ AList.update ''updatedAt'' (Date (Some (clock w (clock_reads w)))) d
                      # post)"
    using run(2) p(5) by (simp add: set_fields_def now_def)
  with p(1,2,3) have c: "\<exists>pre d post. c = pre @ d # post
          \<and> \<not> list_ex (has_id (ObjectId_new s)) pre \<and> has_id (ObjectId_new s) d
          \<and> db (snd (updateEvent (Some s) (Some body) w)) =
              Some (pre @ AList.update ''updatedAt'' (Date (Some (clock w (clock_reads w)))) d
                      # post)"
    by blast
  from a b c show ?thesis by simp
qed

theorem update_with_reserved_keys_only_witness:
  "[(''type'', JStr ''meeting'')] \<noteq> []
   \<and> fst ` set [(''type'', JStr ''meeting'')] \<subseteq> {''_id'', ''type''}
   \<and> ObjectId_isValid ''64F5A6C1E98765432100000C''
   \<and> store_fault stocked_world = None
   \<and> status (fst (updateEvent (Some ''64F5A6C1E98765432100000C'')
                    (Some [(''type'', JStr ''meeting'')]) stocked_world)) = 200
   \<and> oplog (snd (updateEvent (Some ''64F5A6C1E98765432100000C'')
                    (Some [(''type'', JStr ''meeting'')]) stocked_world))
       = [UpdateOne ''64f5a6c1e98765432100000c'' [(''updatedAt'', Date (Some 1700000000000))]]
   \<and> db (snd (updateEvent (Some ''64F5A6C1E98765432100000C'')
                    (Some [(''type'', JStr ''meeting'')]) stocked_world)) = Some
        [[(''_id'', ObjectId ''64f5a6c1e98765432100000a''), (''type'', Plain (JStr ''event'')),
          (''schedule'', Date (Some 10))],
         [(''_id'', ObjectId ''64f5a6c1e98765432100000b''), (''type'', Plain (JStr ''event'')),
          (''schedule'', Date (Some 30))],
         [(''_id'', ObjectId ''64f5a6c1e98765432100000c''), (''type'', Plain (JStr ''event'')),
          (''schedule'', Date (Some 20)), (''updatedAt'', Date (Some 1700000000000))]]"
proof -
  have h: "db stocked_world = Some
        [[(''_id'', ObjectId ''64f5a6c1e98765432100000a''), (''type'', Plain (JStr ''event'')),
          (''schedule'', Date (Some 10))],
         [(''_id'', ObjectId ''64f5a6c1e98765432100000b''), (''type'', Plain (JStr ''event'')),
          (''schedule'', Date (Some 30))],
         [(''_id'', ObjectId ''64f5a6c1e98765432100000c''), (''type'', Plain (JStr ''event'')),
          (''schedule'', Date (Some 20))]]"
    by (simp add: stocked_world_def example_world_def)
  have e: "store_fault stocked_world = None" "clock stocked_world = (\<lambda>k. 1700000000000 + int k)"
    "clock_reads stocked_world = 0" "oplog stocked_world = []"
    by (simp_all add: stocked_world_def example_world_def)
  have v: "ObjectId_isValid ''64F5A6C1E98765432100000C''"
    by (simp add: ObjectId_isValid_def is_hex_digit_def)
  have n: "ObjectId_new ''64F5A6C1E98765432100000C'' = ''64f5a6c1e98765432100000c''"
    by (simp add: ObjectId_new_def to_lower_hex_def)
  show ?thesis
    using v update_with_reserved_keys_only [OF _ _ v h e(1), of "[(''type'', JStr ''meeting'')]"]
    by (simp add: n e h eval_update_defs)
qed

section \<open>Create, then Get-by-identifier\<close>












end
